theory Spec2Isabelle
  imports Main "HOL-Library.Word"
begin

section \<open>Data model of the (S)FTP client (ftpClient.go)\<close>

text \<open>
  Go strings are byte strings and are modelled as \<open>string\<close> (a \<open>char\<close> is one byte);
  a \<open>[]byte\<close> is a list of 8-bit words; Go's \<open>int\<close> is modelled as \<open>int\<close>, and the one
  addition of the code, on the counter of the file names, wraps at 64 bits (\<open>wrapInt\<close>);
  an \<open>error\<close> is its message, and \<open>None\<close> is \<open>nil\<close>.
\<close>

type_synonym byte = "8 word"
type_synonym goerror = string

text \<open>\<open>time.Time\<close>, by the calendar fields the code reads from it.\<close>

record Time =
  Year :: int
  Month :: int
  Day :: int
  Hour :: int
  Minute :: int
  Second :: int
  Nanosecond :: int

text \<open>\<open>type FTPType int\<close> and \<open>type AuthenticationMethod int\<close> with their constants.\<close>

definition FTP :: int where "FTP = 1"
definition SFTP :: int where "SFTP = 2"
definition PASSWORD :: int where "PASSWORD = 1"
definition PUBKEY :: int where "PUBKEY = 2"

definition LINEBREAK_CR :: int where "LINEBREAK_CR = 0x0d"
definition LINEBREAK_CRLF :: int where "LINEBREAK_CRLF = 0x0d0a"
definition LINEBREAK_LF :: int where "LINEBREAK_LF = 0x0a"

record autoGeneratedFilenames_t =
  generatorpattern :: string
  prefix :: string
  suffix :: string
  counter :: int

record ftpConfiguration =
  authMethod :: int
  user :: string
  key :: string
  hostkey :: string
  pollInterval :: int
  deleteAfterRead :: bool
  dialTimeout :: int
  linebreak :: int
  autoGeneratedFilenames :: autoGeneratedFilenames_t

text \<open>
  \<open>ftpServerInstance\<close>. The \<open>config\<close> pointer is modelled by the configuration it points
  to; the termination channel is modelled by the outcome of each \<open>select\<close> of the poll loop.
\<close>

record ftpServerInstance =
  ftpType :: int
  host :: string
  port :: int
  hostpath :: string
  filemask :: string
  config :: ftpConfiguration
  isRunning :: bool

section \<open>The library functions the client calls\<close>

text \<open>\<open>strconv.Itoa\<close> and \<open>fmt.Sprintf\<close> with the verbs \<open>%d\<close>, \<open>%02d\<close>, \<open>%03d\<close>, \<open>%06d\<close>.\<close>

function digits :: "nat \<Rightarrow> string" where
  "digits n =
     (if n < 10 then [''0123456789'' ! n]
      else digits (n div 10) @ [''0123456789'' ! (n mod 10)])"
  by pat_completeness auto
termination
  by (relation "measure id") auto

declare digits.simps [simp del]

definition Itoa :: "int \<Rightarrow> string" where
  "Itoa i = (if i < 0 then CHR ''-'' # digits (nat (- i)) else digits (nat i))"

definition padZero :: "nat \<Rightarrow> string \<Rightarrow> string" where
  "padZero w s = replicate (w - length s) (CHR ''0'') @ s"

definition Sprintf_0d :: "nat \<Rightarrow> int \<Rightarrow> string" where
  "Sprintf_0d w i =
     (if i < 0 then CHR ''-'' # padZero (w - 1) (digits (nat (- i)))
      else padZero w (digits (nat i)))"

text \<open>
  \<open>strings.Replace(s, old, new, -1)\<close>: every non-overlapping occurrence of \<open>old\<close>, from the
  left; an empty \<open>old\<close> matches before every byte and at the end.
\<close>

fun Replace :: "string \<Rightarrow> string \<Rightarrow> string \<Rightarrow> string" where
  "Replace [] old new = (if old = [] then new else [])"
| "Replace (c # s) old new =
     (if old = [] then new @ c # Replace s old new
      else if take (length old) (c # s) = old
        then new @ Replace (drop (length old - 1) s) old new
      else c # Replace s old new)"

text \<open>\<open>strings.TrimLeft(s, cutset)\<close> and \<open>strings.TrimRight(s, cutset)\<close>.\<close>

definition TrimLeft :: "string \<Rightarrow> string \<Rightarrow> string" where
  "TrimLeft s cutset = dropWhile (\<lambda>c. c \<in> set cutset) s"

definition TrimRight :: "string \<Rightarrow> string \<Rightarrow> string" where
  "TrimRight s cutset = rev (dropWhile (\<lambda>c. c \<in> set cutset) (rev s))"

section \<open>Outbound file names and line endings\<close>

text \<open>
  \<open>generateFileName\<close>, with \<open>time.Now()\<close> as the argument \<open>now\<close>. The slice
  \<open>strconv.Itoa(now.Year())[2:]\<close> panics when the year has fewer than two characters:
  that is the result \<open>None\<close>.
\<close>

definition generateFileName ::
  "Time \<Rightarrow> string \<Rightarrow> string \<Rightarrow> string \<Rightarrow> int \<Rightarrow> string option" where
  "generateFileName now filename pre suf cnt =
     (if length (Itoa (Year now)) < 2 then None
      else
        let filename = Replace filename ''yyyy'' (Itoa (Year now));
            filename = Replace filename ''yy'' (drop 2 (Itoa (Year now)));
            filename = Replace filename ''MM'' (Sprintf_0d 2 (Month now));
            filename = Replace filename ''dd'' (Sprintf_0d 2 (Day now));
            filename = Replace filename ''hh'' (Sprintf_0d 2 (Hour now));
            filename = Replace filename ''mm'' (Sprintf_0d 2 (Minute now));
            filename = Replace filename ''ss'' (Sprintf_0d 2 (Second now));
            filename = Replace filename ''cc'' (Sprintf_0d 3 (Nanosecond now div 1000));
            filename = Replace filename ''nn'' (Sprintf_0d 6 (Nanosecond now));
            filename = Replace filename ''#'' (Itoa cnt);
            filename = (if suf \<noteq> [] then ''.'' @ TrimLeft ''.'' suf else filename)
        in Some (pre @ filename))"

text \<open>
  \<open>addLineEndings\<close>: the line break is read from the instance's configuration, not
  from the parameter.
\<close>

definition addLineEndings :: "ftpServerInstance \<Rightarrow> byte list list \<Rightarrow> int \<Rightarrow> byte list" where
  "addLineEndings instance msg lb =
     (let lbreak =
        (if linebreak (config instance) = LINEBREAK_CR then [0x0d]
         else if linebreak (config instance) = LINEBREAK_CRLF then [0x0d, 0x0a]
         else if linebreak (config instance) = LINEBREAK_LF then [0x0a]
         else [0x0a])
      in concat (map (\<lambda>m. m @ lbreak) msg))"

text \<open>\<open>RemoteAddress\<close> returns the pair of the address and the error.\<close>

definition RemoteAddress :: "ftpServerInstance \<Rightarrow> string \<times> goerror option" where
  "RemoteAddress instance = (host instance, None)"

section \<open>The environment of a run: libraries, the handler, the remote server\<close>

text \<open>
  Modelled from the spec: the \<open>ErrorType\<close> constants are declared outside \<open>ftpClient.go\<close>;
  these are the kinds of the error taxonomy, named as the code names them.
\<close>

datatype ErrorType =
    ErrorMaxConnections
  | ErrorConnect
  | ErrorReceive
  | ErrorSend
  | ErrorTimeout
  | ErrorChecksumMismatch
  | ErrorConfiguration
  | ErrorLogin
  | ErrorInternal

text \<open>\<open>os.FileInfo\<close> (SFTP) and \<open>ftp.Entry\<close> (FTP), by the fields the loops read.\<close>

record FileInfo =
  fiName :: string
  fiModTime :: Time

record Entry =
  entName :: string
  entTime :: Time

text \<open>\<open>ssh.ClientConfig\<close>, as \<open>runWithSFTP\<close> and \<open>sftpSend\<close> fill it.\<close>

datatype HostKeyCallback = FixedHostKey string | InsecureIgnoreHostKey

record ClientConfig =
  User :: string
  Auth :: "string list"
  hostKeyCallback :: HostKeyCallback
  Timeout :: int

text \<open>
  Pure library functions that are parameters of the model: \<open>strings.ToUpper\<close>,
  \<open>sftp.Match\<close> (pattern, name), \<open>base64.StdEncoding.Decode\<close> and
  \<open>ssh.ParsePublicKey\<close>.
\<close>

record library =
  ToUpper :: "string \<Rightarrow> string"
  Match :: "string \<Rightarrow> string \<Rightarrow> goerror + bool"
  base64Decode :: "string \<Rightarrow> goerror + byte list"
  ParsePublicKey :: "byte list \<Rightarrow> goerror + string"

text \<open>
  Everything outside the client (the handler's state, the remote server, the clock, the
  termination channel) is a state of type \<open>'w\<close> that every call reads and updates. The
  handler is any object with these three methods; a callback's result may depend on all
  that happened before.
\<close>

record 'w Handler =
  Connected :: "'w \<Rightarrow> ftpServerInstance \<Rightarrow> goerror option \<times> 'w"
  DataReceived :: "'w \<Rightarrow> ftpServerInstance \<Rightarrow> byte list \<Rightarrow> Time \<Rightarrow> goerror option \<times> 'w"
  Error :: "'w \<Rightarrow> ftpServerInstance \<Rightarrow> ErrorType \<Rightarrow> goerror option \<Rightarrow> 'w"

text \<open>
  The calls on \<open>ssh\<close>, the SFTP client and its open file. A handle (connection, client,
  file) is part of the state \<open>'w\<close>.
\<close>

record 'w SftpClient =
  sshDial :: "'w \<Rightarrow> string \<Rightarrow> ClientConfig \<Rightarrow> goerror option \<times> 'w"
  sftpNewClient :: "'w \<Rightarrow> goerror option \<times> 'w"
  sshClose :: "'w \<Rightarrow> 'w"
  sftpReadDir :: "'w \<Rightarrow> string \<Rightarrow> (goerror + FileInfo list) \<times> 'w"
  sftpOpen :: "'w \<Rightarrow> string \<Rightarrow> goerror option \<times> 'w"
  sftpReadAll :: "'w \<Rightarrow> (goerror + byte list) \<times> 'w"
  sftpClose :: "'w \<Rightarrow> goerror option \<times> 'w"
  sftpRemove :: "'w \<Rightarrow> string \<Rightarrow> goerror option \<times> 'w"
  sftpCreate :: "'w \<Rightarrow> string \<Rightarrow> goerror option \<times> 'w"
  sftpWrite :: "'w \<Rightarrow> byte list \<Rightarrow> (int \<times> goerror option) \<times> 'w"
  sftpCloseDst :: "'w \<Rightarrow> 'w"

text \<open>The calls on the FTP client (\<open>github.com/jlaffaye/ftp\<close>) and its response.\<close>

record 'w FtpClient =
  ftpDial :: "'w \<Rightarrow> string \<Rightarrow> int \<Rightarrow> goerror option \<times> 'w"
  ftpLogin :: "'w \<Rightarrow> string \<Rightarrow> string \<Rightarrow> goerror option \<times> 'w"
  ftpList :: "'w \<Rightarrow> string \<Rightarrow> (goerror + Entry list) \<times> 'w"
  ftpRename :: "'w \<Rightarrow> string \<Rightarrow> string \<Rightarrow> goerror option \<times> 'w"
  ftpRetr :: "'w \<Rightarrow> string \<Rightarrow> goerror option \<times> 'w"
  ftpReadAll :: "'w \<Rightarrow> (goerror + byte list) \<times> 'w"
  ftpClose :: "'w \<Rightarrow> goerror option \<times> 'w"
  ftpDelete :: "'w \<Rightarrow> string \<Rightarrow> goerror option \<times> 'w"
  ftpStor :: "'w \<Rightarrow> string \<Rightarrow> byte list \<Rightarrow> goerror option \<times> 'w"

text \<open>
  \<open>terminated\<close> is the \<open>select\<close> at the end of a poll: \<open>True\<close> when the termination
  channel delivered before the poll interval (its argument) passed. \<open>Now\<close> is
  \<open>time.Now()\<close>.
\<close>

record 'w env =
  lib :: library
  handler :: "'w Handler"
  sftp :: "'w SftpClient"
  ftp :: "'w FtpClient"
  terminated :: "'w \<Rightarrow> int \<Rightarrow> bool \<times> 'w"
  Now :: "'w \<Rightarrow> Time"

section \<open>Traces\<close>

text \<open>
  A run is observed by its trace: every call on the handler and on the remote client, in
  order, with its arguments and its result.
\<close>

datatype event =
    EvError ErrorType "goerror option"
  | EvConnected "goerror option"
  | EvDataReceived "byte list" Time "goerror option"
  | EvSshDial string "goerror option"
  | EvNewClient "goerror option"
  | EvSshClose
  | EvReadDir string "goerror + FileInfo list"
  | EvOpen string "goerror option"
  | EvReadAll "goerror + byte list"
  | EvClose "goerror option"
  | EvRemove string "goerror option"
  | EvFtpDial string "goerror option"
  | EvLogin string string "goerror option"
  | EvList string "goerror + Entry list"
  | EvRename string string "goerror option"
  | EvRetr string "goerror option"
  | EvDelete string "goerror option"
  | EvSelect bool
  | EvCreate string "goerror option"
  | EvWrite "byte list" int "goerror option"
  | EvStor string "byte list" "goerror option"

text \<open>How a run ends: it returned, it panicked (\<open>log.Panic\<close>, a slice out of range), the
  process exited (\<open>log.Fatal\<close>), or it was still polling when the observation stopped.\<close>

datatype status = Returned | Panicked | Exited | Polling

definition emit :: "event list \<Rightarrow> event list \<times> 'a \<Rightarrow> event list \<times> 'a" where
  "emit es r = (es @ fst r, snd r)"

text \<open>\<open>handler.Error(instance, kind, err)\<close>.\<close>

definition report :: "'w env \<Rightarrow> ftpServerInstance \<Rightarrow> ErrorType \<Rightarrow> goerror option \<Rightarrow> 'w
    \<Rightarrow> event list \<times> 'w" where
  "report e instance kind err w = ([EvError kind err], Error (handler e) w instance kind err)"

section \<open>The SFTP polling loop (runWithSFTP)\<close>

text \<open>The body of \<open>for _, file := range files\<close>; every \<open>continue\<close> ends it.\<close>

definition sftpFile :: "'w env \<Rightarrow> ftpServerInstance \<Rightarrow> string \<Rightarrow> FileInfo \<Rightarrow> 'w
    \<Rightarrow> event list \<times> 'w" where
  "sftpFile e instance ftpPath file w =
     (case Match (lib e) (ToUpper (lib e) (filemask instance)) (ToUpper (lib e) (fiName file)) of
        Inl err \<Rightarrow> report e instance ErrorReceive (Some err) w
      | Inr matchFileFilter \<Rightarrow>
          if \<not> matchFileFilter then ([], w)
          else
            let filename = ftpPath @ fiName file;
                (opened, w1) = sftpOpen (sftp e) w filename
            in emit [EvOpen filename opened]
              (case opened of
                 Some err \<Rightarrow> report e instance ErrorReceive (Some err) w1
               | None \<Rightarrow>
                   let (readall, w2) = sftpReadAll (sftp e) w1
                   in emit [EvReadAll readall]
                     (case readall of
                        Inl err \<Rightarrow> report e instance ErrorReceive (Some err) w2
                      | Inr filebuffer \<Rightarrow>
                          let (closed, w3) = sftpClose (sftp e) w2
                          in emit [EvClose closed]
                            (case closed of
                               Some err \<Rightarrow> report e instance ErrorReceive (Some err) w3
                             | None \<Rightarrow>
                                 let (err, w4) =
                                       DataReceived (handler e) w3 instance filebuffer (fiModTime file)
                                 in emit [EvDataReceived filebuffer (fiModTime file) err]
                                   (if err = None \<and> deleteAfterRead (config instance) then
                                      let (removed, w5) = sftpRemove (sftp e) w4 filename
                                      in emit [EvRemove filename removed]
                                        (case removed of
                                           Some err' \<Rightarrow> report e instance ErrorInternal (Some err') w5
                                         | None \<Rightarrow> ([], w5))
                                    else ([], w4))))))"

fun sftpFiles :: "'w env \<Rightarrow> ftpServerInstance \<Rightarrow> string \<Rightarrow> FileInfo list \<Rightarrow> 'w
    \<Rightarrow> event list \<times> 'w" where
  "sftpFiles e instance ftpPath [] w = ([], w)"
| "sftpFiles e instance ftpPath (file # files) w =
     (let (tr, w1) = sftpFile e instance ftpPath file w
      in emit tr (sftpFiles e instance ftpPath files w1))"

text \<open>
  \<open>for instance.isRunning { ... }\<close>. The loop has no bound of its own; the first argument
  bounds the number of iterations that are observed, and the status \<open>Polling\<close> says that
  the loop was still running then. A failed \<open>ReadDir\<close> and an empty directory
  \<open>continue\<close> without the \<open>select\<close>.
\<close>

fun sftpPoll :: "nat \<Rightarrow> 'w env \<Rightarrow> ftpServerInstance \<Rightarrow> string \<Rightarrow> 'w
    \<Rightarrow> event list \<times> 'w \<times> ftpServerInstance \<times> status" where
  "sftpPoll 0 e instance ftpPath w =
     ([], w, instance, if isRunning instance then Polling else Returned)"
| "sftpPoll (Suc n) e instance ftpPath w =
     (if \<not> isRunning instance then ([], w, instance, Returned)
      else
        let (files, w1) = sftpReadDir (sftp e) w ftpPath
        in emit [EvReadDir ftpPath files]
          (case files of
             Inl err \<Rightarrow>
               (let (tr, w2) = report e instance ErrorReceive (Some err) w1
                in emit tr (sftpPoll n e instance ftpPath w2))
           | Inr files \<Rightarrow>
               if length files = 0 then sftpPoll n e instance ftpPath w1
               else
                 let (tr, w2) = sftpFiles e instance ftpPath files w1;
                     (stop, w3) = terminated e w2 (pollInterval (config instance))
                 in emit (tr @ [EvSelect stop])
                      (sftpPoll n e
                         (if stop then instance\<lparr>isRunning := False\<rparr> else instance) ftpPath w3)))"

text \<open>
  The host key of the configuration: \<open>Inl\<close> is the error of the base64 decoding or of
  \<open>ssh.ParsePublicKey\<close>.
\<close>

definition hostKeyOf :: "library \<Rightarrow> string \<Rightarrow> goerror + HostKeyCallback" where
  "hostKeyOf l hk =
     (if hk \<noteq> [] then
        (case base64Decode l hk of
           Inl err \<Rightarrow> Inl err
         | Inr k \<Rightarrow>
             (case ParsePublicKey l k of
                Inl err \<Rightarrow> Inl err
              | Inr hostKey \<Rightarrow> Inr (FixedHostKey hostKey)))
      else Inr InsecureIgnoreHostKey)"

text \<open>\<open>sshConfig\<close> after the \<open>switch\<close> on the authentication method.\<close>

definition sshConfigOf :: "ftpServerInstance \<Rightarrow> HostKeyCallback \<Rightarrow> ClientConfig" where
  "sshConfigOf instance cb =
     \<lparr>User = (if authMethod (config instance) = PASSWORD then user (config instance) else []),
      Auth = (if authMethod (config instance) = PASSWORD then [key (config instance)] else []),
      hostKeyCallback = cb,
      Timeout = dialTimeout (config instance)\<rparr>"

text \<open>\<open>fmt.Sprintf("%s:%d", instance.host, instance.port)\<close>.\<close>

definition serverAddress :: "ftpServerInstance \<Rightarrow> string" where
  "serverAddress instance = host instance @ '':'' @ Itoa (port instance)"

definition runWithSFTP :: "nat \<Rightarrow> 'w env \<Rightarrow> ftpServerInstance \<Rightarrow> 'w
    \<Rightarrow> event list \<times> 'w \<times> ftpServerInstance \<times> status" where
  "runWithSFTP fuel e instance w =
     (if authMethod (config instance) \<noteq> PASSWORD \<and> authMethod (config instance) \<noteq> PUBKEY then
        (let (tr, w1) = report e instance ErrorConfiguration None w
         in (tr, w1, instance, Panicked))
      else
        case hostKeyOf (lib e) (hostkey (config instance)) of
          Inl err \<Rightarrow>
            (let (tr, w1) = report e instance ErrorConfiguration (Some err) w
             in (tr, w1, instance, Returned))
        | Inr cb \<Rightarrow>
            let ftpserver = serverAddress instance;
                (dialed, w1) = sshDial (sftp e) w ftpserver (sshConfigOf instance cb)
            in emit [EvSshDial ftpserver dialed]
              (case dialed of
                 Some err \<Rightarrow>
                   (let (tr, w2) = report e instance ErrorConfiguration (Some err) w1
                    in (tr, w2, instance, Returned))
               | None \<Rightarrow>
                   let (client, w2) = sftpNewClient (sftp e) w1
                   in emit [EvNewClient client]
                     (case client of
                        Some err \<Rightarrow>
                          (let (tr, w3) =
                                 report e instance ErrorConnect (Some err) (sshClose (sftp e) w2)
                           in (EvSshClose # tr, w3, instance, Returned))
                      | None \<Rightarrow>
                          let (rejected, w3) = Connected (handler e) w2 instance
                          in emit [EvConnected rejected]
                            (if rejected \<noteq> None then
                               (let (tr, w4) = report e instance ErrorConnect None w3
                                in (tr, w4, instance, Returned))
                             else
                               sftpPoll fuel e (instance\<lparr>isRunning := True\<rparr>)
                                 (TrimRight (hostpath instance) ''/'' @ ''/'') w3))))"

section \<open>The FTP polling loop (runWithFTP)\<close>

text \<open>The body of \<open>for _, file := range files\<close>; the file is renamed to
  \<open>.processing\<close> before it is retrieved.\<close>

definition ftpFile :: "'w env \<Rightarrow> ftpServerInstance \<Rightarrow> string \<Rightarrow> Entry \<Rightarrow> 'w
    \<Rightarrow> event list \<times> 'w" where
  "ftpFile e instance ftpPath file w =
     (case Match (lib e) (ToUpper (lib e) (filemask instance)) (ToUpper (lib e) (entName file)) of
        Inl err \<Rightarrow> report e instance ErrorInternal (Some err) w
      | Inr match \<Rightarrow>
          if \<not> match then ([], w)
          else
            let processing = ftpPath @ entName file @ ''.processing'';
                (renamed, w1) = ftpRename (ftp e) w (ftpPath @ entName file) processing
            in emit [EvRename (ftpPath @ entName file) processing renamed]
              (case renamed of
                 Some err \<Rightarrow> report e instance ErrorReceive (Some err) w1
               | None \<Rightarrow>
                   let (fileread, w2) = ftpRetr (ftp e) w1 processing
                   in emit [EvRetr processing fileread]
                     (case fileread of
                        Some err \<Rightarrow> report e instance ErrorReceive (Some err) w2
                      | None \<Rightarrow>
                          let (readall, w3) = ftpReadAll (ftp e) w2
                          in emit [EvReadAll readall]
                            (case readall of
                               Inl err \<Rightarrow> report e instance ErrorReceive (Some err) w3
                             | Inr filebuffer \<Rightarrow>
                                 let (closed, w4) = ftpClose (ftp e) w3
                                 in emit [EvClose closed]
                                   (case closed of
                                      Some err \<Rightarrow> report e instance ErrorReceive (Some err) w4
                                    | None \<Rightarrow>
                                        let (err, w5) =
                                              DataReceived (handler e) w4 instance filebuffer
                                                (entTime file)
                                        in emit [EvDataReceived filebuffer (entTime file) err]
                                          (if err = None \<and> deleteAfterRead (config instance) then
                                             let (deleted, w6) = ftpDelete (ftp e) w5 processing
                                             in emit [EvDelete processing deleted]
                                               (case deleted of
                                                  Some err' \<Rightarrow>
                                                    report e instance ErrorReceive (Some err') w6
                                                | None \<Rightarrow> ([], w6))
                                           else ([], w5)))))))"

fun ftpFiles :: "'w env \<Rightarrow> ftpServerInstance \<Rightarrow> string \<Rightarrow> Entry list \<Rightarrow> 'w
    \<Rightarrow> event list \<times> 'w" where
  "ftpFiles e instance ftpPath [] w = ([], w)"
| "ftpFiles e instance ftpPath (file # files) w =
     (let (tr, w1) = ftpFile e instance ftpPath file w
      in emit tr (ftpFiles e instance ftpPath files w1))"

text \<open>\<open>for instance.isRunning { ... }\<close>, observed for a bounded number of iterations as
  \<open>sftpPoll\<close> is. A failed \<open>List\<close> continues without the \<open>select\<close>.\<close>

fun ftpPoll :: "nat \<Rightarrow> 'w env \<Rightarrow> ftpServerInstance \<Rightarrow> string \<Rightarrow> 'w
    \<Rightarrow> event list \<times> 'w \<times> ftpServerInstance \<times> status" where
  "ftpPoll 0 e instance ftpPath w =
     ([], w, instance, if isRunning instance then Polling else Returned)"
| "ftpPoll (Suc n) e instance ftpPath w =
     (if \<not> isRunning instance then ([], w, instance, Returned)
      else
        let (files, w1) = ftpList (ftp e) w ftpPath
        in emit [EvList ftpPath files]
          (case files of
             Inl err \<Rightarrow>
               (let (tr, w2) = report e instance ErrorReceive (Some err) w1
                in emit tr (ftpPoll n e instance ftpPath w2))
           | Inr files \<Rightarrow>
               let (tr, w2) = ftpFiles e instance ftpPath files w1;
                   (stop, w3) = terminated e w2 (pollInterval (config instance))
               in emit (tr @ [EvSelect stop])
                    (ftpPoll n e
                       (if stop then instance\<lparr>isRunning := False\<rparr> else instance) ftpPath w3)))"

definition runWithFTP :: "nat \<Rightarrow> 'w env \<Rightarrow> ftpServerInstance \<Rightarrow> 'w
    \<Rightarrow> event list \<times> 'w \<times> ftpServerInstance \<times> status" where
  "runWithFTP fuel e instance w =
     (let (dialed, w1) = ftpDial (ftp e) w (serverAddress instance) (dialTimeout (config instance))
      in emit [EvFtpDial (serverAddress instance) dialed]
        (case dialed of
           Some err \<Rightarrow>
             (let (tr, w2) = report e instance ErrorLogin (Some err) w1
              in (tr, w2, instance, Returned))
         | None \<Rightarrow>
             if authMethod (config instance) \<noteq> PASSWORD then
               (let (tr, w2) =
                      report e instance ErrorConfiguration (Some ''Invalid Authentication Method'') w1
                in (tr, w2, instance, Exited))
             else
               let (login, w2) = ftpLogin (ftp e) w1 (user (config instance)) (key (config instance))
               in emit [EvLogin (user (config instance)) (key (config instance)) login]
                 (case login of
                    Some err \<Rightarrow>
                      (let (tr, w3) = report e instance ErrorLogin (Some err) w2
                       in (tr, w3, instance, Returned))
                  | None \<Rightarrow>
                      let (rejected, w3) = Connected (handler e) w2 instance
                      in emit [EvConnected rejected]
                        (case rejected of
                           Some err \<Rightarrow>
                             (let (tr, w4) = report e instance ErrorLogin (Some err) w3
                              in (tr, w4, instance, Returned))
                         | None \<Rightarrow>
                             ftpPoll fuel e (instance\<lparr>isRunning := True\<rparr>)
                               (TrimRight (hostpath instance) ''/'' @ ''/'') w3))))"

text \<open>\<open>Run\<close> dispatches on the type of the instance.\<close>

definition Run :: "nat \<Rightarrow> 'w env \<Rightarrow> ftpServerInstance \<Rightarrow> 'w
    \<Rightarrow> event list \<times> 'w \<times> ftpServerInstance \<times> status" where
  "Run fuel e instance w =
     (if ftpType instance = FTP then runWithFTP fuel e instance w
      else if ftpType instance = SFTP then runWithSFTP fuel e instance w
      else ([], w, instance, Returned))"

section \<open>Sending (ftpSend, sftpSend)\<close>

text \<open>
  The result of a send: the returned pair \<open>(bytesWritten, err)\<close>, or no return at all
  (the process exited in \<open>log.Fatal\<close>, or \<open>generateFileName\<close> panicked).
\<close>

datatype sent = Return int "goerror option" | NoReturn status

text \<open>
  Go's \<open>int\<close> is 64 bits wide: the result of an addition is reduced modulo \<open>2^64\<close> into
  the range from \<open>-2^63\<close> to \<open>2^63 - 1\<close>.
\<close>

definition wrapInt :: "int \<Rightarrow> int" where
  "wrapInt i = (i + 2 ^ 63) mod 2 ^ 64 - 2 ^ 63"

text \<open>\<open>instance.config.autoGeneratedFilenames.counter += 1\<close>.\<close>

definition nextCounter :: "ftpServerInstance \<Rightarrow> ftpServerInstance" where
  "nextCounter instance =
     instance\<lparr>config := (config instance)\<lparr>autoGeneratedFilenames :=
       (autoGeneratedFilenames (config instance))\<lparr>counter :=
         wrapInt (counter (autoGeneratedFilenames (config instance)) + 1)\<rparr>\<rparr>\<rparr>"

text \<open>The call of \<open>generateFileName\<close> both senders make, after the counter was advanced.\<close>

definition generatedFilename :: "'w env \<Rightarrow> ftpServerInstance \<Rightarrow> 'w \<Rightarrow> string option" where
  "generatedFilename e instance w =
     generateFileName (Now e w)
       (generatorpattern (autoGeneratedFilenames (config instance)))
       (prefix (autoGeneratedFilenames (config instance)))
       (suffix (autoGeneratedFilenames (config instance)))
       (counter (autoGeneratedFilenames (config instance)))"

definition ftpSend :: "'w env \<Rightarrow> ftpServerInstance \<Rightarrow> byte list list \<Rightarrow> 'w
    \<Rightarrow> event list \<times> 'w \<times> ftpServerInstance \<times> sent" where
  "ftpSend e instance msg w =
     (let (dialed, w1) = ftpDial (ftp e) w (serverAddress instance) (dialTimeout (config instance))
      in emit [EvFtpDial (serverAddress instance) dialed]
        (case dialed of
           Some err \<Rightarrow> ([], w1, instance, Return (- 1) (Some err))
         | None \<Rightarrow>
             if authMethod (config instance) \<noteq> PASSWORD then ([], w1, instance, NoReturn Exited)
             else
               let (login, w2) = ftpLogin (ftp e) w1 (user (config instance)) (key (config instance))
               in emit [EvLogin (user (config instance)) (key (config instance)) login]
                 (case login of
                    Some err \<Rightarrow> ([], w2, instance, Return (- 1) (Some err))
                  | None \<Rightarrow>
                      let ftpPath = TrimRight (hostpath instance) ''/'' @ ''/'';
                          instance = nextCounter instance
                      in case generatedFilename e instance w2 of
                           None \<Rightarrow> ([], w2, instance, NoReturn Panicked)
                         | Some generated \<Rightarrow>
                             let databytes = addLineEndings instance msg (linebreak (config instance));
                                 (stored, w3) = ftpStor (ftp e) w2 (ftpPath @ generated) databytes
                             in emit [EvStor (ftpPath @ generated) databytes stored]
                               (case stored of
                                  Some err \<Rightarrow> ([], w3, instance, Return (- 1) (Some err))
                                | None \<Rightarrow> ([], w3, instance, Return (- 1) None)))))"

text \<open>The state of the environment after the dial and the login of \<open>ftpSend\<close>: there
  \<open>generateFileName\<close> reads the clock.\<close>

definition afterLogin :: "'w env \<Rightarrow> ftpServerInstance \<Rightarrow> 'w \<Rightarrow> 'w" where
  "afterLogin e instance w =
     snd (ftpLogin (ftp e)
       (snd (ftpDial (ftp e) w (serverAddress instance) (dialTimeout (config instance))))
       (user (config instance)) (key (config instance)))"

definition sftpSend :: "'w env \<Rightarrow> ftpServerInstance \<Rightarrow> byte list list \<Rightarrow> 'w
    \<Rightarrow> event list \<times> 'w \<times> ftpServerInstance \<times> sent" where
  "sftpSend e instance msg w =
     (if authMethod (config instance) \<noteq> PASSWORD \<and> authMethod (config instance) \<noteq> PUBKEY then
        ([], w, instance, Return (- 1) (Some ''invalid (s)FTP Authentication-Method provided''))
      else
        case hostKeyOf (lib e) (hostkey (config instance)) of
          Inl err \<Rightarrow> ([], w, instance, Return (- 1) (Some err))
        | Inr cb \<Rightarrow>
            let ftpserver = serverAddress instance;
                (dialed, w1) = sshDial (sftp e) w ftpserver (sshConfigOf instance cb)
            in emit [EvSshDial ftpserver dialed]
              (case dialed of
                 Some err \<Rightarrow> ([], w1, instance, Return (- 1) (Some err))
               | None \<Rightarrow>
                   let (client, w2) = sftpNewClient (sftp e) w1
                   in emit [EvNewClient client]
                     (case client of
                        Some err \<Rightarrow>
                          ([EvSshClose], sshClose (sftp e) w2, instance, Return (- 1) (Some err))
                      | None \<Rightarrow>
                          let ftpPath = TrimRight (hostpath instance) ''/'' @ ''/'';
                              databytes = addLineEndings instance msg (linebreak (config instance));
                              instance = nextCounter instance
                          in case generatedFilename e instance w2 of
                               None \<Rightarrow> ([], w2, instance, NoReturn Panicked)
                             | Some generated \<Rightarrow>
                                 let (created, w3) = sftpCreate (sftp e) w2 (ftpPath @ generated)
                                 in emit [EvCreate (ftpPath @ generated) created]
                                   (case created of
                                      Some err \<Rightarrow> ([], w3, instance, Return (- 1) (Some err))
                                    | None \<Rightarrow>
                                        let ((bytesWritten, err), w4) = sftpWrite (sftp e) w3 databytes
                                        in emit [EvWrite databytes bytesWritten err]
                                          (case err of
                                             Some err \<Rightarrow> ([], w4, instance, Return (- 1) (Some err))
                                           | None \<Rightarrow>
                                               ([], sftpCloseDst (sftp e) w4, instance,
                                                Return bytesWritten None))))))"

text \<open>\<open>Send\<close> dispatches on the type; for any other type the zero values are returned.\<close>

definition Send :: "'w env \<Rightarrow> ftpServerInstance \<Rightarrow> byte list list \<Rightarrow> 'w
    \<Rightarrow> event list \<times> 'w \<times> ftpServerInstance \<times> sent" where
  "Send e instance msg w =
     (if ftpType instance = FTP then ftpSend e instance msg w
      else if ftpType instance = SFTP then sftpSend e instance msg w
      else ([], w, instance, Return 0 None))"

text \<open>The values the examples below are evaluated at.\<close>

definition exampleTime :: Time where
  "exampleTime =
     \<lparr>Year = 2023, Month = 10, Day = 14, Hour = 16, Minute = 24, Second = 27,
      Nanosecond = 5000\<rparr>"

section \<open>The LIS1-A1 checksum\<close>

text \<open>The two frame terminators of the wire protocol.\<close>

definition ETX :: byte where "ETX = 0x03"
definition ETB :: byte where "ETB = 0x17"

text \<open>\<open>[]byte(s)\<close> of a Go string.\<close>

definition bytes :: "string \<Rightarrow> byte list" where
  "bytes s = map of_char s"

definition byteSum :: "byte list \<Rightarrow> nat" where
  "byteSum bs = sum_list (map unat bs)"

text \<open>The upper-case hexadecimal digit of a value below 16, in ASCII.\<close>

definition hexDigit :: "nat \<Rightarrow> byte" where
  "hexDigit n = (if n < 10 then of_nat (48 + n) else of_nat (55 + n))"

text \<open>
  Modelled from the spec: \<open>computeChecksum\<close> belongs to the protocol package, which is not
  among the source files (only its test \<open>TestComputeChecksum\<close> is). The spec defines it as
  the sum of all bytes of the frame number, the payload and the terminator, taken modulo
  256 and emitted as two upper-case hexadecimal ASCII digits.
\<close>

definition computeChecksum :: "byte list \<Rightarrow> byte list \<Rightarrow> byte list \<Rightarrow> byte list" where
  "computeChecksum frameNumber body specialChars =
     (let sum = byteSum (frameNumber @ body @ specialChars) mod 256
      in [hexDigit (sum div 16), hexDigit (sum mod 16)])"

text \<open>What an ASCII byte stands for as an upper-case hexadecimal digit, to read a checksum
  back: \<open>0\<close> to \<open>9\<close> and \<open>A\<close> to \<open>F\<close> only.\<close>

definition hexValue :: "byte \<Rightarrow> nat option" where
  "hexValue b =
     (if 0x30 \<le> b \<and> b \<le> 0x39 then Some (unat b - 0x30)
      else if 0x41 \<le> b \<and> b \<le> 0x46 then Some (unat b - 0x41 + 10)
      else None)"

section \<open>Observations on traces\<close>

text \<open>The results of the \<open>Connected\<close> calls of a trace, in order.\<close>

fun connectOf :: "event \<Rightarrow> goerror option list" where
  "connectOf (EvConnected r) = [r]"
| "connectOf _ = []"

definition connects :: "event list \<Rightarrow> goerror option list" where
  "connects tr = concat (map connectOf tr)"

text \<open>The \<open>DataReceived\<close> calls of a trace: payload, \<open>receivedAt\<close> and the result.\<close>

fun deliveryOf :: "event \<Rightarrow> (byte list \<times> Time \<times> goerror option) list" where
  "deliveryOf (EvDataReceived d t r) = [(d, t, r)]"
| "deliveryOf _ = []"

definition deliveries :: "event list \<Rightarrow> (byte list \<times> Time \<times> goerror option) list" where
  "deliveries tr = concat (map deliveryOf tr)"

text \<open>The paths of the delete requests of a trace (\<open>Remove\<close> on SFTP, \<open>Delete\<close> on FTP).\<close>

fun deleteOf :: "event \<Rightarrow> string list" where
  "deleteOf (EvRemove p r) = [p]"
| "deleteOf (EvDelete p r) = [p]"
| "deleteOf _ = []"

definition deletes :: "event list \<Rightarrow> string list" where
  "deletes tr = concat (map deleteOf tr)"

text \<open>The \<open>Error\<close> calls of a trace: kind and cause.\<close>

fun errorOf :: "event \<Rightarrow> (ErrorType \<times> goerror option) list" where
  "errorOf (EvError k c) = [(k, c)]"
| "errorOf _ = []"

definition errors :: "event list \<Rightarrow> (ErrorType \<times> goerror option) list" where
  "errors tr = concat (map errorOf tr)"

text \<open>The paths on which the processing of a file starts: \<open>Open\<close> on SFTP, the source of
  the \<open>Rename\<close> on FTP.\<close>

fun selectOf :: "event \<Rightarrow> string list" where
  "selectOf (EvOpen p r) = [p]"
| "selectOf (EvRename p q r) = [p]"
| "selectOf _ = []"

definition selected :: "event list \<Rightarrow> string list" where
  "selected tr = concat (map selectOf tr)"

text \<open>The modification times of the entries that the directory listings of a trace returned.\<close>

fun listedOf :: "event \<Rightarrow> Time list" where
  "listedOf (EvReadDir p (Inr files)) = map fiModTime files"
| "listedOf (EvList p (Inr files)) = map entTime files"
| "listedOf _ = []"

definition listed :: "event list \<Rightarrow> Time list" where
  "listed tr = concat (map listedOf tr)"

text \<open>The results of the dials of a trace (\<open>ssh.Dial\<close> and \<open>ftp.Dial\<close>).\<close>

fun dialOf :: "event \<Rightarrow> goerror option list" where
  "dialOf (EvSshDial a r) = [r]"
| "dialOf (EvFtpDial a r) = [r]"
| "dialOf _ = []"

definition dials :: "event list \<Rightarrow> goerror option list" where
  "dials tr = concat (map dialOf tr)"

text \<open>The \<open>receivedAt\<close> arguments of the \<open>DataReceived\<close> calls of a trace.\<close>

definition receivedAts :: "event list \<Rightarrow> Time list" where
  "receivedAts tr = map (\<lambda>(d, t, r). t) (deliveries tr)"

text \<open>The connection is set up: the SFTP client was created, or the FTP login succeeded.\<close>

fun setupOk :: "event \<Rightarrow> bool" where
  "setupOk (EvNewClient None) = True"
| "setupOk (EvLogin u k None) = True"
| "setupOk _ = False"

fun isError :: "event \<Rightarrow> bool" where
  "isError (EvError k c) = True"
| "isError _ = False"

text \<open>The trace of a run or of a part of it, and how the run ended.\<close>

definition trace :: "event list \<times> 'a \<Rightarrow> event list" where
  "trace r = fst r"

definition outcome :: "'a \<times> 'b \<times> 'c \<times> 'd \<Rightarrow> 'd" where
  "outcome r = snd (snd (snd r))"

text \<open>
  The filter of both loops, in words: the name in upper case matches the
  mask in upper case.
\<close>

definition upperMatch :: "library \<Rightarrow> string \<Rightarrow> string \<Rightarrow> bool" where
  "upperMatch l pat nm = (Match l (ToUpper l pat) (ToUpper l nm) = Inr True)"

text \<open>
  The delete rule, read off a trace: each \<open>DataReceived\<close> is directly followed by a delete
  request exactly when it returned nil and the flag is set, and no delete request stands
  anywhere else.
\<close>

fun startsWithDelete :: "event list \<Rightarrow> bool" where
  "startsWithDelete [] = False"
| "startsWithDelete (e # es) = (deleteOf e \<noteq> [])"

fun deleteRule :: "bool \<Rightarrow> event list \<Rightarrow> bool" where
  "deleteRule flag [] = True"
| "deleteRule flag (EvDataReceived d t r # es) =
     (startsWithDelete es = (r = None \<and> flag) \<and> deleteRule flag es)"
| "deleteRule flag (e # es) = (\<not> startsWithDelete es \<and> deleteRule flag es)"

section \<open>An example environment\<close>

text \<open>
  A small environment to evaluate runs at. The state counts the calls on the handler.
  The directory holds two files, of which the mask \<open>*.dat\<close> selects one; the results of
  the dial, of \<open>Connected\<close> and of \<open>DataReceived\<close> are parameters, and the termination
  channel delivers at the first \<open>select\<close>.
\<close>

definition asciiUpper :: "char \<Rightarrow> char" where
  "asciiUpper c =
     (case map_of (zip ''abcdefghijklmnopqrstuvwxyz'' ''ABCDEFGHIJKLMNOPQRSTUVWXYZ'') c of
        None \<Rightarrow> c
      | Some u \<Rightarrow> u)"

text \<open>Stands in for \<open>sftp.Match\<close> in the examples: literal bytes and \<open>*\<close>.\<close>

fun starMatch :: "string \<Rightarrow> string \<Rightarrow> bool" where
  "starMatch [] s = (s = [])"
| "starMatch (p # ps) [] = (p = CHR ''*'' \<and> starMatch ps [])"
| "starMatch (p # ps) (c # cs) =
     (if p = CHR ''*'' then starMatch ps (c # cs) \<or> starMatch (p # ps) cs
      else p = c \<and> starMatch ps cs)"

definition exampleLib :: library where
  "exampleLib =
     \<lparr>ToUpper = map asciiUpper,
      Match = (\<lambda>p n. Inr (starMatch p n)),
      base64Decode = (\<lambda>s. Inr (map of_char s)),
      ParsePublicKey = (\<lambda>k. Inr (map (\<lambda>b. char_of (unat b)) k))\<rparr>"

definition exampleData :: "byte list" where
  "exampleData = [0x48, 0x7C, 0x0A]"

definition otherTime :: Time where
  "otherTime =
     \<lparr>Year = 2022, Month = 1, Day = 2, Hour = 3, Minute = 4, Second = 5, Nanosecond = 6\<rparr>"

definition exampleEnv :: "goerror option \<Rightarrow> goerror option \<Rightarrow> goerror option \<Rightarrow> nat env" where
  "exampleEnv dial accepted received =
     \<lparr>lib = exampleLib,
      handler =
        \<lparr>Connected = (\<lambda>w i. (accepted, Suc w)),
         DataReceived = (\<lambda>w i d t. (received, Suc w)),
         Error = (\<lambda>w i k c. Suc w)\<rparr>,
      sftp =
        \<lparr>sshDial = (\<lambda>w a c. (dial, w)),
         sftpNewClient = (\<lambda>w. (None, w)),
         sshClose = (\<lambda>w. w),
         sftpReadDir = (\<lambda>w p.
           (Inr [\<lparr>fiName = ''a.Dat'', fiModTime = exampleTime\<rparr>,
                 \<lparr>fiName = ''b.txt'', fiModTime = otherTime\<rparr>], w)),
         sftpOpen = (\<lambda>w p. (None, w)),
         sftpReadAll = (\<lambda>w. (Inr exampleData, w)),
         sftpClose = (\<lambda>w. (None, w)),
         sftpRemove = (\<lambda>w p. (None, w)),
         sftpCreate = (\<lambda>w p. (None, w)),
         sftpWrite = (\<lambda>w d. ((int (length d), None), w)),
         sftpCloseDst = (\<lambda>w. w)\<rparr>,
      ftp =
        \<lparr>ftpDial = (\<lambda>w a t. (dial, w)),
         ftpLogin = (\<lambda>w u k. (None, w)),
         ftpList = (\<lambda>w p.
           (Inr [\<lparr>entName = ''a.Dat'', entTime = exampleTime\<rparr>,
                 \<lparr>entName = ''b.txt'', entTime = otherTime\<rparr>], w)),
         ftpRename = (\<lambda>w p q. (None, w)),
         ftpRetr = (\<lambda>w p. (None, w)),
         ftpReadAll = (\<lambda>w. (Inr exampleData, w)),
         ftpClose = (\<lambda>w. (None, w)),
         ftpDelete = (\<lambda>w p. (None, w)),
         ftpStor = (\<lambda>w p d. (None, w))\<rparr>,
      terminated = (\<lambda>w d. (True, w)),
      Now = (\<lambda>w. exampleTime)\<rparr>"

definition exampleConfig :: ftpConfiguration where
  "exampleConfig =
     \<lparr>authMethod = PASSWORD, user = ''lab'', key = ''secret'', hostkey = [],
      pollInterval = 60000000000, deleteAfterRead = True, dialTimeout = 10000000000,
      linebreak = LINEBREAK_LF,
      autoGeneratedFilenames =
        \<lparr>generatorpattern = ''yyyyMMddhhmmss-#.dat'', prefix = ''AUTO-'', suffix = [],
         counter = 0\<rparr>\<rparr>"

definition exampleInstance :: "int \<Rightarrow> ftpServerInstance" where
  "exampleInstance ty =
     \<lparr>ftpType = ty, host = ''lab1'', port = 22, hostpath = ''/in/'', filemask = ''*.dat'',
      config = exampleConfig, isRunning = False\<rparr>"

section \<open>Properties\<close>

subsection \<open>Traces of the loops\<close>

lemma emit_simps [simp]:
  "fst (emit es r) = es @ fst r" "snd (emit es r) = snd r"
  by (simp_all add: emit_def)

lemma report_trace [simp]: "fst (report e i k c w) = [EvError k c]"
  by (simp add: report_def)

lemma connects_simps [simp]:
  "connects [] = []" "connects (ev # tr) = connectOf ev @ connects tr"
  "connects (tr @ tr') = connects tr @ connects tr'"
  by (simp_all add: connects_def)

lemma deliveries_simps [simp]:
  "deliveries [] = []" "deliveries (ev # tr) = deliveryOf ev @ deliveries tr"
  "deliveries (tr @ tr') = deliveries tr @ deliveries tr'"
  by (simp_all add: deliveries_def)

lemma deletes_simps [simp]:
  "deletes [] = []" "deletes (ev # tr) = deleteOf ev @ deletes tr"
  "deletes (tr @ tr') = deletes tr @ deletes tr'"
  by (simp_all add: deletes_def)

lemma errors_simps [simp]:
  "errors [] = []" "errors (ev # tr) = errorOf ev @ errors tr"
  "errors (tr @ tr') = errors tr @ errors tr'"
  by (simp_all add: errors_def)

lemma selected_simps [simp]:
  "selected [] = []" "selected (ev # tr) = selectOf ev @ selected tr"
  "selected (tr @ tr') = selected tr @ selected tr'"
  by (simp_all add: selected_def)

lemma listed_simps [simp]:
  "listed [] = []" "listed (ev # tr) = listedOf ev @ listed tr"
  "listed (tr @ tr') = listed tr @ listed tr'"
  by (simp_all add: listed_def)

lemma startsWithDelete_append:
  "startsWithDelete (a @ b) = (if a = [] then startsWithDelete b else startsWithDelete a)"
  by (cases a) simp_all

lemma deleteRule_append:
  "deleteRule flag a \<Longrightarrow> deleteRule flag b \<Longrightarrow> \<not> startsWithDelete b
     \<Longrightarrow> deleteRule flag (a @ b)"
  by (induction flag a rule: deleteRule.induct) (auto simp: startsWithDelete_append)

lemma sftpFile_deleteRule:
  "deleteRule (deleteAfterRead (config inst)) (fst (sftpFile e inst ftpPath file w))
   \<and> \<not> startsWithDelete (fst (sftpFile e inst ftpPath file w))"
  by (auto simp: sftpFile_def Let_def split: sum.splits option.splits prod.splits)

lemma ftpFile_deleteRule:
  "deleteRule (deleteAfterRead (config inst)) (fst (ftpFile e inst ftpPath file w))
   \<and> \<not> startsWithDelete (fst (ftpFile e inst ftpPath file w))"
  by (auto simp: ftpFile_def Let_def split: sum.splits option.splits prod.splits)

lemma sftpFiles_Cons_trace:
  "fst (sftpFiles e inst p (f # fs) w) =
     fst (sftpFile e inst p f w) @ fst (sftpFiles e inst p fs (snd (sftpFile e inst p f w)))"
  by (simp add: split_def Let_def)

lemma ftpFiles_Cons_trace:
  "fst (ftpFiles e inst p (f # fs) w) =
     fst (ftpFile e inst p f w) @ fst (ftpFiles e inst p fs (snd (ftpFile e inst p f w)))"
  by (simp add: split_def Let_def)

lemma sftpFiles_deleteRule:
  "deleteRule (deleteAfterRead (config inst)) (fst (sftpFiles e inst p files w))
   \<and> \<not> startsWithDelete (fst (sftpFiles e inst p files w))"
  by (induction files arbitrary: w)
     (simp_all add: sftpFiles_Cons_trace sftpFile_deleteRule deleteRule_append
        startsWithDelete_append del: sftpFiles.simps(2))

lemma ftpFiles_deleteRule:
  "deleteRule (deleteAfterRead (config inst)) (fst (ftpFiles e inst p files w))
   \<and> \<not> startsWithDelete (fst (ftpFiles e inst p files w))"
  by (induction files arbitrary: w)
     (simp_all add: ftpFiles_Cons_trace ftpFile_deleteRule deleteRule_append
        startsWithDelete_append del: ftpFiles.simps(2))

lemma sftpPoll_deleteRule:
  "deleteAfterRead (config inst) = flag \<Longrightarrow>
   deleteRule flag (fst (sftpPoll n e inst p w))
   \<and> \<not> startsWithDelete (fst (sftpPoll n e inst p w))"
proof (induction n arbitrary: inst w)
  case 0
  show ?case by simp
next
  case (Suc n)
  have files: "deleteRule flag (fst (sftpFiles e inst p fs w'))
       \<and> \<not> startsWithDelete (fst (sftpFiles e inst p fs w'))" for fs w'
    using sftpFiles_deleteRule [of inst e p fs w'] Suc.prems by simp
  have rest: "deleteRule flag (fst (sftpPoll n e i' p w'))
       \<and> \<not> startsWithDelete (fst (sftpPoll n e i' p w'))"
    if "deleteAfterRead (config i') = flag" for i' w'
    using Suc.IH [OF that] .
  show ?case
    using Suc.prems
    by (auto simp: Let_def split_def deleteRule_append startsWithDelete_append files rest
          report_def split: sum.splits)
qed

lemma ftpPoll_deleteRule:
  "deleteAfterRead (config inst) = flag \<Longrightarrow>
   deleteRule flag (fst (ftpPoll n e inst p w))
   \<and> \<not> startsWithDelete (fst (ftpPoll n e inst p w))"
proof (induction n arbitrary: inst w)
  case 0
  show ?case by simp
next
  case (Suc n)
  have files: "deleteRule flag (fst (ftpFiles e inst p fs w'))
       \<and> \<not> startsWithDelete (fst (ftpFiles e inst p fs w'))" for fs w'
    using ftpFiles_deleteRule [of inst e p fs w'] Suc.prems by simp
  have rest: "deleteRule flag (fst (ftpPoll n e i' p w'))
       \<and> \<not> startsWithDelete (fst (ftpPoll n e i' p w'))"
    if "deleteAfterRead (config i') = flag" for i' w'
    using Suc.IH [OF that] .
  show ?case
    using Suc.prems
    by (auto simp: Let_def split_def deleteRule_append startsWithDelete_append files rest
          report_def split: sum.splits)
qed

lemma dials_simps [simp]:
  "dials [] = []" "dials (ev # tr) = dialOf ev @ dials tr"
  "dials (tr @ tr') = dials tr @ dials tr'"
  by (simp_all add: dials_def)

lemma sftpFile_setup_free:
  "connects (fst (sftpFile e inst p f w)) = [] \<and> dials (fst (sftpFile e inst p f w)) = []
   \<and> listed (fst (sftpFile e inst p f w)) = []"
  by (auto simp: sftpFile_def Let_def split: sum.splits option.splits prod.splits)

lemma ftpFile_setup_free:
  "connects (fst (ftpFile e inst p f w)) = [] \<and> dials (fst (ftpFile e inst p f w)) = []
   \<and> listed (fst (ftpFile e inst p f w)) = []"
  by (auto simp: ftpFile_def Let_def split: sum.splits option.splits prod.splits)

lemma sftpFiles_setup_free:
  "connects (fst (sftpFiles e inst p files w)) = [] \<and> dials (fst (sftpFiles e inst p files w)) = []
   \<and> listed (fst (sftpFiles e inst p files w)) = []"
  by (induction files arbitrary: w)
     (simp_all add: sftpFiles_Cons_trace sftpFile_setup_free del: sftpFiles.simps(2))

lemma ftpFiles_setup_free:
  "connects (fst (ftpFiles e inst p files w)) = [] \<and> dials (fst (ftpFiles e inst p files w)) = []
   \<and> listed (fst (ftpFiles e inst p files w)) = []"
  by (induction files arbitrary: w)
     (simp_all add: ftpFiles_Cons_trace ftpFile_setup_free del: ftpFiles.simps(2))

lemma sftpPoll_setup_free:
  "connects (fst (sftpPoll n e inst p w)) = [] \<and> dials (fst (sftpPoll n e inst p w)) = []"
  by (induction n arbitrary: inst w)
     (auto simp: Let_def split_def sftpFiles_setup_free report_def split: sum.splits)

lemma ftpPoll_setup_free:
  "connects (fst (ftpPoll n e inst p w)) = [] \<and> dials (fst (ftpPoll n e inst p w)) = []"
  by (induction n arbitrary: inst w)
     (auto simp: Let_def split_def ftpFiles_setup_free report_def split: sum.splits)

text \<open>The trace of a file that is delivered.\<close>

lemma sftpFile_delivery:
  "deliveries (fst (sftpFile e inst p f w)) = []
   \<or> (\<exists>d r rest. fst (sftpFile e inst p f w) =
         [EvOpen (p @ fiName f) None, EvReadAll (Inr d), EvClose None,
          EvDataReceived d (fiModTime f) r] @ rest
       \<and> deliveries rest = [])"
  by (auto simp: sftpFile_def Let_def split: sum.splits option.splits prod.splits)

lemma ftpFile_delivery:
  "deliveries (fst (ftpFile e inst p f w)) = []
   \<or> (\<exists>d r rest. fst (ftpFile e inst p f w) =
         [EvRename (p @ entName f) (p @ entName f @ ''.processing'') None,
          EvRetr (p @ entName f @ ''.processing'') None, EvReadAll (Inr d), EvClose None,
          EvDataReceived d (entTime f) r] @ rest
       \<and> deliveries rest = [])"
  by (auto simp: ftpFile_def Let_def split: sum.splits option.splits prod.splits)

lemma receivedAts_simps [simp]:
  "receivedAts [] = []" "receivedAts (tr @ tr') = receivedAts tr @ receivedAts tr'"
  "receivedAts (ev # tr) = map (\<lambda>(d, t, r). t) (deliveryOf ev) @ receivedAts tr"
  by (simp_all add: receivedAts_def)

lemma sftpFile_receivedAts:
  "t \<in> set (receivedAts (fst (sftpFile e inst p f w))) \<Longrightarrow> t = fiModTime f"
  by (auto simp: sftpFile_def Let_def split: sum.splits option.splits prod.splits if_splits)

lemma ftpFile_receivedAts:
  "t \<in> set (receivedAts (fst (ftpFile e inst p f w))) \<Longrightarrow> t = entTime f"
  by (auto simp: ftpFile_def Let_def split: sum.splits option.splits prod.splits if_splits)

lemma sftpFiles_receivedAts:
  "t \<in> set (receivedAts (fst (sftpFiles e inst p files w))) \<Longrightarrow> t \<in> fiModTime ` set files"
  by (induction files arbitrary: w)
     (auto simp add: sftpFiles_Cons_trace simp del: sftpFiles.simps(2)
        dest: sftpFile_receivedAts)

lemma ftpFiles_receivedAts:
  "t \<in> set (receivedAts (fst (ftpFiles e inst p files w))) \<Longrightarrow> t \<in> entTime ` set files"
  by (induction files arbitrary: w)
     (auto simp add: ftpFiles_Cons_trace simp del: ftpFiles.simps(2)
        dest: ftpFile_receivedAts)

lemma sftpPoll_receivedAts:
  "t \<in> set (receivedAts (fst (sftpPoll n e inst p w)))
     \<Longrightarrow> t \<in> set (listed (fst (sftpPoll n e inst p w)))"
proof (induction n arbitrary: inst w)
  case 0
  then show ?case by simp
next
  case (Suc n)
  then show ?case
    by (auto simp: Let_def split_def report_def sftpFiles_setup_free
          split: sum.splits if_splits dest: sftpFiles_receivedAts)
qed

lemma ftpPoll_receivedAts:
  "t \<in> set (receivedAts (fst (ftpPoll n e inst p w)))
     \<Longrightarrow> t \<in> set (listed (fst (ftpPoll n e inst p w)))"
proof (induction n arbitrary: inst w)
  case 0
  then show ?case by simp
next
  case (Suc n)
  then show ?case
    by (auto simp: Let_def split_def report_def ftpFiles_setup_free
          split: sum.splits if_splits dest: ftpFiles_receivedAts)
qed

text \<open>Which files a pass over a listing selects.\<close>

lemma sftpFile_selected:
  "selected (fst (sftpFile e inst p f w)) =
     (if upperMatch (lib e) (filemask inst) (fiName f) then [p @ fiName f] else [])"
  by (auto simp: sftpFile_def upperMatch_def Let_def split: sum.splits option.splits prod.splits)

lemma ftpFile_selected:
  "selected (fst (ftpFile e inst p f w)) =
     (if upperMatch (lib e) (filemask inst) (entName f) then [p @ entName f] else [])"
  by (auto simp: ftpFile_def upperMatch_def Let_def split: sum.splits option.splits prod.splits)

lemma sftpFiles_selected:
  "selected (fst (sftpFiles e inst p files w)) =
     map (\<lambda>f. p @ fiName f) (filter (\<lambda>f. upperMatch (lib e) (filemask inst) (fiName f)) files)"
  by (induction files arbitrary: w)
     (simp_all add: sftpFiles_Cons_trace sftpFile_selected del: sftpFiles.simps(2))

lemma ftpFiles_selected:
  "selected (fst (ftpFiles e inst p files w)) =
     map (\<lambda>f. p @ entName f) (filter (\<lambda>f. upperMatch (lib e) (filemask inst) (entName f)) files)"
  by (induction files arbitrary: w)
     (simp_all add: ftpFiles_Cons_trace ftpFile_selected del: ftpFiles.simps(2))

lemma sftpFile_counts:
  "length (deliveries (fst (sftpFile e inst p f w))) \<le> length (selected (fst (sftpFile e inst p f w)))
   \<and> length (selected (fst (sftpFile e inst p f w)))
       \<le> length (deliveries (fst (sftpFile e inst p f w))) + length (errors (fst (sftpFile e inst p f w)))"
  by (auto simp: sftpFile_def Let_def split: sum.splits option.splits prod.splits)

lemma ftpFile_counts:
  "length (deliveries (fst (ftpFile e inst p f w))) \<le> length (selected (fst (ftpFile e inst p f w)))
   \<and> length (selected (fst (ftpFile e inst p f w)))
       \<le> length (deliveries (fst (ftpFile e inst p f w))) + length (errors (fst (ftpFile e inst p f w)))"
  by (auto simp: ftpFile_def Let_def split: sum.splits option.splits prod.splits)

lemma sftpFiles_counts:
  "length (deliveries (fst (sftpFiles e inst p files w)))
      \<le> length (selected (fst (sftpFiles e inst p files w)))
   \<and> length (selected (fst (sftpFiles e inst p files w)))
       \<le> length (deliveries (fst (sftpFiles e inst p files w)))
          + length (errors (fst (sftpFiles e inst p files w)))"
proof (induction files arbitrary: w)
  case Nil
  show ?case by simp
next
  case (Cons f files)
  from Cons.IH [of "snd (sftpFile e inst p f w)"] sftpFile_counts [of e inst p f w]
  show ?case
    by (simp add: sftpFiles_Cons_trace del: sftpFiles.simps(2))
qed

lemma ftpFiles_counts:
  "length (deliveries (fst (ftpFiles e inst p files w)))
      \<le> length (selected (fst (ftpFiles e inst p files w)))
   \<and> length (selected (fst (ftpFiles e inst p files w)))
       \<le> length (deliveries (fst (ftpFiles e inst p files w)))
          + length (errors (fst (ftpFiles e inst p files w)))"
proof (induction files arbitrary: w)
  case Nil
  show ?case by simp
next
  case (Cons f files)
  from Cons.IH [of "snd (ftpFile e inst p f w)"] ftpFile_counts [of e inst p f w]
  show ?case
    by (simp add: ftpFiles_Cons_trace del: ftpFiles.simps(2))
qed

text \<open>The delete rule in a run.\<close>

lemma runWithSFTP_deleteRule:
  "deleteRule (deleteAfterRead (config inst)) (fst (runWithSFTP fuel e inst w))
   \<and> \<not> startsWithDelete (fst (runWithSFTP fuel e inst w))"
  using sftpPoll_deleteRule [of "inst\<lparr>isRunning := True\<rparr>" "deleteAfterRead (config inst)" fuel e]
  by (auto simp: runWithSFTP_def Let_def split_def report_def split: sum.splits option.splits)

lemma runWithFTP_deleteRule:
  "deleteRule (deleteAfterRead (config inst)) (fst (runWithFTP fuel e inst w))
   \<and> \<not> startsWithDelete (fst (runWithFTP fuel e inst w))"
  using ftpPoll_deleteRule [of "inst\<lparr>isRunning := True\<rparr>" "deleteAfterRead (config inst)" fuel e]
  by (auto simp: runWithFTP_def Let_def split_def report_def split: sum.splits option.splits)

text \<open>\<open>Connected\<close> in a run.\<close>

lemma runWithSFTP_connected:
  "length (connects (fst (runWithSFTP fuel e inst w))) \<le> 1
   \<and> deliveries (takeWhile (\<lambda>ev. connectOf ev = []) (fst (runWithSFTP fuel e inst w))) = []
   \<and> ((\<exists>ev \<in> set (fst (runWithSFTP fuel e inst w)). setupOk ev)
        \<longrightarrow> length (connects (fst (runWithSFTP fuel e inst w))) = 1)
   \<and> (\<not> (\<exists>ev \<in> set (fst (runWithSFTP fuel e inst w)). setupOk ev)
        \<longrightarrow> connects (fst (runWithSFTP fuel e inst w)) = [])
   \<and> (\<forall>rej. Some rej \<in> set (connects (fst (runWithSFTP fuel e inst w)))
        \<longrightarrow> deliveries (fst (runWithSFTP fuel e inst w)) = []
            \<and> isError (last (fst (runWithSFTP fuel e inst w)))
            \<and> snd (snd (snd (runWithSFTP fuel e inst w))) = Returned)"
  by (auto simp: runWithSFTP_def Let_def split_def report_def sftpPoll_setup_free
        split: sum.splits option.splits)

lemma runWithFTP_connected:
  "length (connects (fst (runWithFTP fuel e inst w))) \<le> 1
   \<and> deliveries (takeWhile (\<lambda>ev. connectOf ev = []) (fst (runWithFTP fuel e inst w))) = []
   \<and> ((\<exists>ev \<in> set (fst (runWithFTP fuel e inst w)). setupOk ev)
        \<longrightarrow> length (connects (fst (runWithFTP fuel e inst w))) = 1)
   \<and> (\<not> (\<exists>ev \<in> set (fst (runWithFTP fuel e inst w)). setupOk ev)
        \<longrightarrow> connects (fst (runWithFTP fuel e inst w)) = [])
   \<and> (\<forall>rej. Some rej \<in> set (connects (fst (runWithFTP fuel e inst w)))
        \<longrightarrow> deliveries (fst (runWithFTP fuel e inst w)) = []
            \<and> isError (last (fst (runWithFTP fuel e inst w)))
            \<and> snd (snd (snd (runWithFTP fuel e inst w))) = Returned)"
  by (auto simp: runWithFTP_def Let_def split_def report_def ftpPoll_setup_free
        split: sum.splits option.splits)

text \<open>A run whose dial fails.\<close>

lemma runWithSFTP_dial_fails:
  "Some err \<in> set (dials (fst (runWithSFTP fuel e inst w))) \<Longrightarrow>
     errors (fst (runWithSFTP fuel e inst w)) = [(ErrorConfiguration, Some err)]
     \<and> connects (fst (runWithSFTP fuel e inst w)) = []
     \<and> deliveries (fst (runWithSFTP fuel e inst w)) = []
     \<and> snd (snd (snd (runWithSFTP fuel e inst w))) = Returned"
  by (auto simp: runWithSFTP_def Let_def split_def report_def sftpPoll_setup_free
        split: sum.splits option.splits if_splits)

lemma runWithFTP_dial_fails:
  "Some err \<in> set (dials (fst (runWithFTP fuel e inst w))) \<Longrightarrow>
     errors (fst (runWithFTP fuel e inst w)) = [(ErrorLogin, Some err)]
     \<and> connects (fst (runWithFTP fuel e inst w)) = []
     \<and> deliveries (fst (runWithFTP fuel e inst w)) = []
     \<and> snd (snd (snd (runWithFTP fuel e inst w))) = Returned"
  by (auto simp: runWithFTP_def Let_def split_def report_def ftpPoll_setup_free
        split: sum.splits option.splits if_splits)

text \<open>The timestamps a run passes to \<open>DataReceived\<close>.\<close>

lemma runWithSFTP_receivedAts:
  "set (receivedAts (fst (runWithSFTP fuel e inst w))) \<subseteq> set (listed (fst (runWithSFTP fuel e inst w)))"
  by (auto simp: runWithSFTP_def Let_def split_def report_def
        split: sum.splits option.splits if_splits dest: sftpPoll_receivedAts)

lemma runWithFTP_receivedAts:
  "set (receivedAts (fst (runWithFTP fuel e inst w))) \<subseteq> set (listed (fst (runWithFTP fuel e inst w)))"
  by (auto simp: runWithFTP_def Let_def split_def report_def
        split: sum.splits option.splits if_splits dest: ftpPoll_receivedAts)

text \<open>The byte counts of the two senders.\<close>

lemma wrapInt_range: "- (2 ^ 63) \<le> wrapInt i \<and> wrapInt i < 2 ^ 63"
  by (simp add: wrapInt_def)

lemma wrapInt_in_range: "- (2 ^ 63) \<le> i \<Longrightarrow> i < 2 ^ 63 \<Longrightarrow> wrapInt i = i"
  by (simp add: wrapInt_def)

lemma nextCounter_wraps:
  "counter (autoGeneratedFilenames (config inst)) = 9223372036854775807 \<Longrightarrow>
   counter (autoGeneratedFilenames (config (nextCounter inst))) = - 9223372036854775808"
  by (simp add: nextCounter_def wrapInt_def)

lemma generatedFilename_clock:
  "(generatedFilename e inst w = None) = (length (Itoa (Year (Now e w))) < 2)"
  by (simp add: generatedFilename_def generateFileName_def Let_def)

lemma ftpSend_dials:
  "dials (fst (ftpSend e inst msg w))
     = [fst (ftpDial (ftp e) w (serverAddress inst) (dialTimeout (config inst)))]"
  by (auto simp: ftpSend_def Let_def split_def emit_def split: option.splits)

lemma ftpSend_exits:
  "(snd (snd (snd (ftpSend e inst msg w))) = NoReturn Exited)
     = (dials (fst (ftpSend e inst msg w)) = [None] \<and> authMethod (config inst) \<noteq> PASSWORD)"
  by (auto simp: ftpSend_def Let_def split_def emit_def split: option.splits)

lemma generatedFilename_Some:
  "generatedFilename e inst w = Some x \<Longrightarrow> \<not> length (Itoa (Year (Now e w))) < 2"
  using generatedFilename_clock [of e inst w] by simp

lemma ftpSend_login:
  "(\<exists>u k r. EvLogin u k r \<in> set (fst (ftpSend e inst msg w)))
     = (dials (fst (ftpSend e inst msg w)) = [None] \<and> authMethod (config inst) = PASSWORD)"
  by (auto simp: ftpSend_def Let_def split_def emit_def split: option.splits)

lemma ftpSend_panics:
  "(snd (snd (snd (ftpSend e inst msg w))) = NoReturn Panicked)
     = ((\<exists>u k. EvLogin u k None \<in> set (fst (ftpSend e inst msg w)))
        \<and> length (Itoa (Year (Now e (afterLogin e inst w)))) < 2)"
  by (auto simp: ftpSend_def Let_def split_def emit_def generatedFilename_clock afterLogin_def
        split: option.splits dest: generatedFilename_Some)

lemma ftpSend_returns:
  "(\<exists>err. snd (snd (snd (ftpSend e inst msg w))) = Return (- 1) err)
     = (snd (snd (snd (ftpSend e inst msg w))) \<noteq> NoReturn Exited
        \<and> snd (snd (snd (ftpSend e inst msg w))) \<noteq> NoReturn Panicked)"
  by (auto simp: ftpSend_def Let_def split_def emit_def split: option.splits)

lemma ftpSend_clock:
  "(\<forall>w'. 2 \<le> length (Itoa (Year (Now e w'))))
     \<longrightarrow> snd (snd (snd (ftpSend e inst msg w))) \<noteq> NoReturn Panicked"
  by (auto simp: ftpSend_def Let_def split_def emit_def generatedFilename_clock not_le
        split: option.splits)

lemma sftpSend_returns:
  "(\<forall>w'. 2 \<le> length (Itoa (Year (Now e w'))))
     \<longrightarrow> (\<exists>n err. snd (snd (snd (sftpSend e inst msg w))) = Return n err)"
  by (auto simp: sftpSend_def Let_def split_def emit_def generatedFilename_clock not_le
        split: sum.splits option.splits)

lemma ftpSend_stored:
  "(\<exists>p d. EvStor p d None \<in> set (fst (ftpSend e inst msg w)))
     = (snd (snd (snd (ftpSend e inst msg w))) = Return (- 1) None)"
  by (auto simp: ftpSend_def Let_def split_def emit_def split: sum.splits option.splits)

lemma sftpSend_written:
  "(snd (snd (snd (sftpSend e inst msg w))) = Return n None)
     = (EvWrite (addLineEndings inst msg (linebreak (config inst))) n None
          \<in> set (fst (sftpSend e inst msg w)))"
  by (auto simp: sftpSend_def Let_def split_def emit_def addLineEndings_def nextCounter_def
        split: sum.splits option.splits)

text \<open>Runs of either type, and the delete request of one file.\<close>

lemma Run_deleteRule:
  "deleteRule (deleteAfterRead (config inst)) (fst (Run fuel e inst w))
   \<and> \<not> startsWithDelete (fst (Run fuel e inst w))"
  by (simp add: Run_def runWithSFTP_deleteRule runWithFTP_deleteRule)

lemma Run_receivedAts:
  "set (receivedAts (fst (Run fuel e inst w))) \<subseteq> set (listed (fst (Run fuel e inst w)))"
  by (simp add: Run_def runWithSFTP_receivedAts runWithFTP_receivedAts)

lemma sftpFile_deletes:
  "deletes (fst (sftpFile e inst p f w)) =
     (if (\<exists>d t. (d, t, None) \<in> set (deliveries (fst (sftpFile e inst p f w))))
          \<and> deleteAfterRead (config inst)
      then [p @ fiName f] else [])"
  by (auto simp: sftpFile_def Let_def split: sum.splits option.splits prod.splits)

lemma ftpFile_deletes:
  "deletes (fst (ftpFile e inst p f w)) =
     (if (\<exists>d t. (d, t, None) \<in> set (deliveries (fst (ftpFile e inst p f w))))
          \<and> deleteAfterRead (config inst)
      then [p @ entName f @ ''.processing''] else [])"
  by (auto simp: ftpFile_def Let_def split: sum.splits option.splits prod.splits)

subsection \<open>Example runs\<close>

lemma example_Run:
  "Run fuel e (exampleInstance SFTP) w = runWithSFTP fuel e (exampleInstance SFTP) w"
  "Run fuel e (exampleInstance FTP) w = runWithFTP fuel e (exampleInstance FTP) w"
  "ftpType (exampleInstance SFTP) \<noteq> FTP"
  by (simp_all add: Run_def exampleInstance_def FTP_def SFTP_def)

lemmas example_defs = exampleEnv_def exampleInstance_def exampleConfig_def exampleLib_def
  PASSWORD_def PUBKEY_def FTP_def SFTP_def hostKeyOf_def serverAddress_def sshConfigOf_def
  report_def emit_def TrimRight_def Itoa_def digits.simps asciiUpper_def

lemma example_sftp_dial_refused:
  "runWithSFTP 3 (exampleEnv (Some ''refused'') None None) (exampleInstance SFTP) 0
     = ([EvSshDial ''lab1:22'' (Some ''refused''), EvError ErrorConfiguration (Some ''refused'')],
        1, exampleInstance SFTP, Returned)"
  by (simp add: runWithSFTP_def example_defs)

lemma example_ftp_dial_refused:
  "runWithFTP 3 (exampleEnv (Some ''refused'') None None) (exampleInstance FTP) 0
     = ([EvFtpDial ''lab1:22'' (Some ''refused''), EvError ErrorLogin (Some ''refused'')],
        1, exampleInstance FTP, Returned)"
  by (simp add: runWithFTP_def example_defs)

lemma example_sftp_rejected:
  "runWithSFTP 3 (exampleEnv None (Some ''busy'') None) (exampleInstance SFTP) 0
     = ([EvSshDial ''lab1:22'' None, EvNewClient None, EvConnected (Some ''busy''),
         EvError ErrorConnect None],
        2, exampleInstance SFTP, Returned)"
  by (simp add: runWithSFTP_def example_defs)

lemma example_ftp_rejected:
  "runWithFTP 3 (exampleEnv None (Some ''busy'') None) (exampleInstance FTP) 0
     = ([EvFtpDial ''lab1:22'' None, EvLogin ''lab'' ''secret'' None, EvConnected (Some ''busy''),
         EvError ErrorLogin (Some ''busy'')],
        2, exampleInstance FTP, Returned)"
  by (simp add: runWithFTP_def example_defs)

lemma example_sftp_run:
  "fst (runWithSFTP 3 (exampleEnv None None None) (exampleInstance SFTP) 0)
  = [EvSshDial ''lab1:22'' None, EvNewClient None, EvConnected None,
   EvReadDir ''/in/'' (Inr [\<lparr>fiName = ''a.Dat'', fiModTime = exampleTime\<rparr>,
                 \<lparr>fiName = ''b.txt'', fiModTime = otherTime\<rparr>]),
   EvOpen ''/in/a.Dat'' None, EvReadAll (Inr exampleData), EvClose None,
   EvDataReceived exampleData exampleTime None, EvRemove ''/in/a.Dat'' None, EvSelect True]"
  by (simp add: runWithSFTP_def example_defs sftpFile_def numeral_3_eq_3 Let_def)

lemma example_ftp_run:
  "fst (runWithFTP 3 (exampleEnv None None None) (exampleInstance FTP) 0)
  = [EvFtpDial ''lab1:22'' None, EvLogin ''lab'' ''secret'' None, EvConnected None,
   EvList ''/in/'' (Inr [\<lparr>entName = ''a.Dat'', entTime = exampleTime\<rparr>,
                 \<lparr>entName = ''b.txt'', entTime = otherTime\<rparr>]),
   EvRename ''/in/a.Dat'' ''/in/a.Dat.processing'' None,
   EvRetr ''/in/a.Dat.processing'' None, EvReadAll (Inr exampleData), EvClose None,
   EvDataReceived exampleData exampleTime None, EvDelete ''/in/a.Dat.processing'' None,
   EvSelect True]"
  by (simp add: runWithFTP_def example_defs ftpFile_def numeral_3_eq_3 Let_def)

text \<open>Two sends in the example environment, and a send with the public-key method.\<close>

lemma example_ftpSend:
  "ftpSend (exampleEnv None None None) (exampleInstance FTP) [exampleData] 0
     = ([EvFtpDial ''lab1:22'' None, EvLogin ''lab'' ''secret'' None,
         EvStor ''/in/AUTO-20231014162427-1.dat'' [0x48, 0x7C, 0x0A, 0x0A] None],
        0, nextCounter (exampleInstance FTP), Return (- 1) None)"
  by (simp add: ftpSend_def example_defs generatedFilename_def generateFileName_def Let_def
        exampleTime_def Sprintf_0d_def padZero_def nextCounter_def wrapInt_def
        addLineEndings_def exampleData_def LINEBREAK_LF_def LINEBREAK_CR_def LINEBREAK_CRLF_def)

lemma example_sftpSend:
  "sftpSend (exampleEnv None None None) (exampleInstance SFTP) [exampleData] 0
     = ([EvSshDial ''lab1:22'' None, EvNewClient None,
         EvCreate ''/in/AUTO-20231014162427-1.dat'' None,
         EvWrite [0x48, 0x7C, 0x0A, 0x0A] 4 None],
        0, nextCounter (exampleInstance SFTP), Return 4 None)"
  by (simp add: sftpSend_def example_defs generatedFilename_def generateFileName_def Let_def
        exampleTime_def Sprintf_0d_def padZero_def nextCounter_def wrapInt_def
        addLineEndings_def exampleData_def LINEBREAK_LF_def LINEBREAK_CR_def LINEBREAK_CRLF_def)

lemma example_ftpSend_pubkey:
  "ftpSend (exampleEnv None None None)
      ((exampleInstance FTP)\<lparr>config := exampleConfig\<lparr>authMethod := PUBKEY\<rparr>\<rparr>) [exampleData] 0
     = ([EvFtpDial ''lab1:22'' None], 0,
        (exampleInstance FTP)\<lparr>config := exampleConfig\<lparr>authMethod := PUBKEY\<rparr>\<rparr>,
        NoReturn Exited)"
  by (simp add: ftpSend_def example_defs)

text \<open>The file name of a send whose counter stood at the largest \<open>int\<close>.\<close>

lemma example_counter_wraps:
  "generatedFilename (exampleEnv None None None)
     (nextCounter ((exampleInstance FTP)\<lparr>config := exampleConfig\<lparr>autoGeneratedFilenames :=
        (autoGeneratedFilenames exampleConfig)\<lparr>counter := 9223372036854775807\<rparr>\<rparr>\<rparr>)) (0::nat)
     = Some ''AUTO-20231014162427--9223372036854775808.dat''"
  by (simp add: example_defs generatedFilename_def generateFileName_def Let_def
        exampleTime_def Sprintf_0d_def padZero_def nextCounter_def wrapInt_def)

subsection \<open>The polling loops and the senders\<close>

text \<open>
  C3. In both polling loops the processing of one polled file issues a delete request,
  and it is for that file (on FTP under its \<open>.processing\<close> name), if and only if
  \<open>DataReceived\<close> was invoked for the file and returned nil and \<open>deleteAfterRead\<close> is
  set; otherwise it issues none. In the trace of every run, each \<open>DataReceived\<close> is
  directly followed by a delete request exactly in that case, and no delete request
  stands anywhere else.
\<close>

theorem delete_iff_delivered_nil_and_flag:
  "deletes (trace (sftpFile e inst p f w)) =
     (if (\<exists>d t. (d, t, None) \<in> set (deliveries (trace (sftpFile e inst p f w))))
          \<and> deleteAfterRead (config inst)
      then [p @ fiName f] else [])
   \<and> deletes (trace (ftpFile e inst p g w)) =
     (if (\<exists>d t. (d, t, None) \<in> set (deliveries (trace (ftpFile e inst p g w))))
          \<and> deleteAfterRead (config inst)
      then [p @ entName g @ ''.processing''] else [])
   \<and> deleteRule (deleteAfterRead (config inst)) (trace (Run fuel e inst w))
   \<and> \<not> startsWithDelete (trace (Run fuel e inst w))"
  unfolding trace_def
  using sftpFile_deletes [of e inst p f w] ftpFile_deletes [of e inst p g w]
    Run_deleteRule [of inst fuel e w]
  by simp

text \<open>
  C5, as stated, fails: when the dial is refused, the SFTP run invokes \<open>Error\<close> with the
  kind Configuration and the FTP run with the kind Login; neither invokes it with the
  kind Connect.
\<close>

theorem dial_failure_kind_counterexample:
  "dials (trace (Run 3 (exampleEnv (Some ''refused'') None None) (exampleInstance SFTP) 0))
     = [Some ''refused'']
   \<and> map fst (errors (trace (Run 3 (exampleEnv (Some ''refused'') None None) (exampleInstance SFTP) 0)))
     = [ErrorConfiguration]
   \<and> dials (trace (Run 3 (exampleEnv (Some ''refused'') None None) (exampleInstance FTP) 0))
     = [Some ''refused'']
   \<and> map fst (errors (trace (Run 3 (exampleEnv (Some ''refused'') None None) (exampleInstance FTP) 0)))
     = [ErrorLogin]"
  by (simp add: trace_def example_Run example_sftp_dial_refused example_ftp_dial_refused)

text \<open>
  C5, amended. Whenever the dial of a run fails, \<open>Error\<close> is invoked exactly once, with
  the dial's error and the kind Configuration on SFTP and Login on FTP, and the run returns
  without a session: \<open>Connected\<close> and \<open>DataReceived\<close> are never invoked.
\<close>

theorem dial_failure_reported_and_returns:
  "Some err \<in> set (dials (trace (Run fuel e inst w))) \<Longrightarrow>
     errors (trace (Run fuel e inst w)) =
       [(if ftpType inst = FTP then ErrorLogin else ErrorConfiguration, Some err)]
     \<and> connects (trace (Run fuel e inst w)) = []
     \<and> deliveries (trace (Run fuel e inst w)) = []
     \<and> outcome (Run fuel e inst w) = Returned"
  unfolding trace_def outcome_def
  using runWithSFTP_dial_fails [of err fuel e inst w] runWithFTP_dial_fails [of err fuel e inst w]
  by (simp add: Run_def split: if_splits)

text \<open>The amended C5 at the example run whose SSH dial is refused.\<close>

theorem dial_failure_reported_and_returns_witness:
  "Some ''refused'' \<in> set (dials (trace (Run 3 (exampleEnv (Some ''refused'') None None) (exampleInstance SFTP) 0)))
   \<and> errors (trace (Run 3 (exampleEnv (Some ''refused'') None None) (exampleInstance SFTP) 0))
       = [(ErrorConfiguration, Some ''refused'')]
   \<and> connects (trace (Run 3 (exampleEnv (Some ''refused'') None None) (exampleInstance SFTP) 0)) = []
   \<and> deliveries (trace (Run 3 (exampleEnv (Some ''refused'') None None) (exampleInstance SFTP) 0)) = []
   \<and> outcome (Run 3 (exampleEnv (Some ''refused'') None None) (exampleInstance SFTP) 0) = Returned"
proof -
  have d: "Some ''refused'' \<in> set (dials (trace (Run 3 (exampleEnv (Some ''refused'') None None) (exampleInstance SFTP) 0)))"
    by (simp add: trace_def example_Run example_sftp_dial_refused)
  have t: "ftpType (exampleInstance SFTP) \<noteq> FTP"
    by (simp add: example_Run)
  from dial_failure_reported_and_returns [OF d] d t show ?thesis
    by simp
qed

text \<open>
  C6, as stated, fails: in the FTP run whose dial is refused, \<open>Connected\<close> is invoked
  zero times, not exactly once.
\<close>

theorem connected_not_invoked_counterexample:
  "connects (trace (Run 3 (exampleEnv (Some ''refused'') None None) (exampleInstance FTP) 0)) = []
   \<and> length (connects (trace (Run 3 (exampleEnv (Some ''refused'') None None) (exampleInstance FTP) 0))) \<noteq> 1"
  by (simp add: trace_def example_Run example_ftp_dial_refused)

text \<open>
  C6, amended. In every run \<open>Connected\<close> is invoked at most once: exactly once when
  the connection was set up (the SFTP client was created, the FTP login succeeded), and
  not at all when it was not (the dial, the login, the creation of the client or the
  configuration failed); no \<open>DataReceived\<close> is invoked before it; and if it returns a
  rejection, the last call of the run is \<open>Error\<close>, the run returns, and
  \<open>DataReceived\<close> is never invoked.
\<close>

theorem connected_at_most_once_before_data:
  "length (connects (trace (Run fuel e inst w))) \<le> 1
   \<and> deliveries (takeWhile (\<lambda>ev. connectOf ev = []) (trace (Run fuel e inst w))) = []
   \<and> ((\<exists>ev \<in> set (trace (Run fuel e inst w)). setupOk ev)
        \<longrightarrow> length (connects (trace (Run fuel e inst w))) = 1)
   \<and> (\<not> (\<exists>ev \<in> set (trace (Run fuel e inst w)). setupOk ev)
        \<longrightarrow> connects (trace (Run fuel e inst w)) = [])
   \<and> (\<forall>rej. Some rej \<in> set (connects (trace (Run fuel e inst w)))
        \<longrightarrow> deliveries (trace (Run fuel e inst w)) = []
            \<and> isError (last (trace (Run fuel e inst w)))
            \<and> outcome (Run fuel e inst w) = Returned)"
  unfolding trace_def outcome_def
  using runWithSFTP_connected [of fuel e inst w] runWithFTP_connected [of fuel e inst w]
  by (simp add: Run_def)

text \<open>The amended C6 at two example SFTP runs: the handler rejects the connection, and the
  dial is refused.\<close>

theorem connected_at_most_once_before_data_witness:
  "(\<exists>ev \<in> set (trace (Run 3 (exampleEnv None (Some ''busy'') None) (exampleInstance SFTP) 0)). setupOk ev)
   \<and> Some ''busy'' \<in> set (connects (trace (Run 3 (exampleEnv None (Some ''busy'') None) (exampleInstance SFTP) 0)))
   \<and> length (connects (trace (Run 3 (exampleEnv None (Some ''busy'') None) (exampleInstance SFTP) 0))) = 1
   \<and> deliveries (trace (Run 3 (exampleEnv None (Some ''busy'') None) (exampleInstance SFTP) 0)) = []
   \<and> isError (last (trace (Run 3 (exampleEnv None (Some ''busy'') None) (exampleInstance SFTP) 0)))
   \<and> outcome (Run 3 (exampleEnv None (Some ''busy'') None) (exampleInstance SFTP) 0) = Returned
   \<and> \<not> (\<exists>ev \<in> set (trace (Run 3 (exampleEnv (Some ''refused'') None None) (exampleInstance SFTP) 0)). setupOk ev)
   \<and> connects (trace (Run 3 (exampleEnv (Some ''refused'') None None) (exampleInstance SFTP) 0)) = []"
proof -
  have r: "Run 3 (exampleEnv None (Some ''busy'') None) (exampleInstance SFTP) 0
      = ([EvSshDial ''lab1:22'' None, EvNewClient None, EvConnected (Some ''busy''),
         EvError ErrorConnect None], 2, exampleInstance SFTP, Returned)"
    by (simp add: example_Run example_sftp_rejected)
  have s: "\<exists>ev \<in> set (trace (Run 3 (exampleEnv None (Some ''busy'') None) (exampleInstance SFTP) 0)). setupOk ev"
    by (simp add: r trace_def)
  have c: "Some ''busy'' \<in> set (connects (trace (Run 3 (exampleEnv None (Some ''busy'') None) (exampleInstance SFTP) 0)))"
    by (simp add: r trace_def)
  have n: "\<not> (\<exists>ev \<in> set (trace (Run 3 (exampleEnv (Some ''refused'') None None) (exampleInstance SFTP) 0)). setupOk ev)"
    by (simp add: trace_def example_Run example_sftp_dial_refused)
  from connected_at_most_once_before_data
         [of 3 "exampleEnv None (Some ''busy'') None" "exampleInstance SFTP" 0]
       connected_at_most_once_before_data
         [of 3 "exampleEnv (Some ''refused'') None None" "exampleInstance SFTP" 0] s c n
  show ?thesis by blast
qed

text \<open>
  C7. When the processing of a polled file invokes \<open>DataReceived\<close>, it does so once, with
  the bytes read from that file (opened under its name) and with the modification time of
  its directory entry (\<open>ModTime()\<close> on SFTP, \<open>Time\<close> on FTP) as \<open>receivedAt\<close>; and every
  \<open>receivedAt\<close> of a run is the modification time of an entry that a listing of that run
  returned.
\<close>

theorem receivedAt_is_modification_time:
  "(deliveries (trace (sftpFile e inst p f w)) = []
     \<or> (\<exists>d r rest. trace (sftpFile e inst p f w) =
           [EvOpen (p @ fiName f) None, EvReadAll (Inr d), EvClose None,
            EvDataReceived d (fiModTime f) r] @ rest
         \<and> deliveries rest = []))
   \<and> (deliveries (trace (ftpFile e inst p g w)) = []
     \<or> (\<exists>d r rest. trace (ftpFile e inst p g w) =
           [EvRename (p @ entName g) (p @ entName g @ ''.processing'') None,
            EvRetr (p @ entName g @ ''.processing'') None, EvReadAll (Inr d), EvClose None,
            EvDataReceived d (entTime g) r] @ rest
         \<and> deliveries rest = []))
   \<and> set (receivedAts (trace (Run fuel e inst w))) \<subseteq> set (listed (trace (Run fuel e inst w)))"
  unfolding trace_def
  using sftpFile_delivery [of e inst p f w] ftpFile_delivery [of e inst p g w]
    Run_receivedAts [of fuel e inst w]
  by simp

text \<open>
  C9. In one pass over a directory listing, the files on which processing starts (\<open>Open\<close>
  on SFTP, \<open>Rename\<close> on FTP) are exactly the entries whose name in upper case matches the
  file mask in upper case, in the order of the listing. \<open>DataReceived\<close> is invoked only for
  selected files, and each selected file is delivered or an error is reported. The
  selection depends on the mask and the name only through their upper-case forms.
\<close>

theorem selected_iff_upper_case_match:
  "selected (trace (sftpFiles e inst p files w)) =
     map (\<lambda>f. p @ fiName f) (filter (\<lambda>f. upperMatch (lib e) (filemask inst) (fiName f)) files)
   \<and> selected (trace (ftpFiles e inst p entries w)) =
     map (\<lambda>f. p @ entName f) (filter (\<lambda>f. upperMatch (lib e) (filemask inst) (entName f)) entries)
   \<and> length (deliveries (trace (sftpFiles e inst p files w)))
       \<le> length (selected (trace (sftpFiles e inst p files w)))
   \<and> length (selected (trace (sftpFiles e inst p files w)))
       \<le> length (deliveries (trace (sftpFiles e inst p files w)))
          + length (errors (trace (sftpFiles e inst p files w)))
   \<and> length (deliveries (trace (ftpFiles e inst p entries w)))
       \<le> length (selected (trace (ftpFiles e inst p entries w)))
   \<and> length (selected (trace (ftpFiles e inst p entries w)))
       \<le> length (deliveries (trace (ftpFiles e inst p entries w)))
          + length (errors (trace (ftpFiles e inst p entries w)))
   \<and> (ToUpper (lib e) pat = ToUpper (lib e) pat' \<and> ToUpper (lib e) nm = ToUpper (lib e) nm'
        \<longrightarrow> upperMatch (lib e) pat nm = upperMatch (lib e) pat' nm')"
  unfolding trace_def
  using sftpFiles_selected [of e inst p files w] ftpFiles_selected [of e inst p entries w]
    sftpFiles_counts [of e inst p files w] ftpFiles_counts [of e inst p entries w]
  by (simp add: upperMatch_def)

text \<open>C9 at the example library: the mask \<open>*.dat\<close> selects \<open>a.Dat\<close> and not \<open>b.txt\<close>.\<close>

theorem selected_iff_upper_case_match_witness:
  "ToUpper exampleLib ''*.dat'' = ToUpper exampleLib ''*.DAT''
   \<and> ToUpper exampleLib ''a.Dat'' = ToUpper exampleLib ''A.dat''
   \<and> upperMatch exampleLib ''*.dat'' ''a.Dat'' = upperMatch exampleLib ''*.DAT'' ''A.dat''
   \<and> upperMatch exampleLib ''*.dat'' ''a.Dat''
   \<and> \<not> upperMatch exampleLib ''*.dat'' ''b.txt''"
proof -
  have l: "lib (exampleEnv None None None :: nat env) = exampleLib"
    by (simp add: exampleEnv_def)
  have u: "ToUpper exampleLib ''*.dat'' = ToUpper exampleLib ''*.DAT''
      \<and> ToUpper exampleLib ''a.Dat'' = ToUpper exampleLib ''A.dat''"
    by (simp add: exampleLib_def asciiUpper_def)
  have m: "upperMatch exampleLib ''*.dat'' ''a.Dat''" "\<not> upperMatch exampleLib ''*.dat'' ''b.txt''"
    by (simp_all add: upperMatch_def exampleLib_def asciiUpper_def)
  from selected_iff_upper_case_match
    [of "exampleEnv None None None :: nat env" _ _ _ _ _ "''*.dat''" "''*.DAT''" "''a.Dat''" "''A.dat''"]
    u m l
  show ?thesis by simp
qed

text \<open>
  C10, as stated, fails: \<open>ftpSend\<close> does not return -1 in every case. With the
  authentication method \<open>PUBKEY\<close> and a dial that succeeds, \<open>log.Fatal\<close> ends the
  process after the dial: nothing is returned.
\<close>

theorem ftpSend_exits_counterexample:
  "trace (ftpSend (exampleEnv None None None)
      ((exampleInstance FTP)\<lparr>config := exampleConfig\<lparr>authMethod := PUBKEY\<rparr>\<rparr>) [exampleData] 0)
     = [EvFtpDial ''lab1:22'' None]
   \<and> outcome (ftpSend (exampleEnv None None None)
      ((exampleInstance FTP)\<lparr>config := exampleConfig\<lparr>authMethod := PUBKEY\<rparr>\<rparr>) [exampleData] 0)
     = NoReturn Exited
   \<and> \<not> (\<exists>n err. outcome (ftpSend (exampleEnv None None None)
      ((exampleInstance FTP)\<lparr>config := exampleConfig\<lparr>authMethod := PUBKEY\<rparr>\<rparr>) [exampleData] 0)
     = Return n err)"
  by (simp add: outcome_def trace_def example_ftpSend_pubkey)

text \<open>
  C10, amended. \<open>ftpSend\<close> dials once, and logs in exactly when the dial succeeded and
  the authentication method is \<open>PASSWORD\<close>. It does not return in exactly two cases: the
  process exits (\<open>log.Fatal\<close>) exactly when the dial succeeded and the authentication
  method is not \<open>PASSWORD\<close>; and it panics exactly when the login was accepted and
  \<open>generateFileName\<close> panics, that is, when the year of the clock then has fewer than two
  characters. In every other case it returns, and its byte count is -1; it returns
  \<open>(-1, nil)\<close> exactly when \<open>Stor\<close> succeeded. \<open>sftpSend\<close> returns \<open>(n, nil)\<close> exactly
  when \<open>Write\<close> of the data (the records with their line endings) reported \<open>n\<close> bytes
  written and no error, and it returns whenever the year of the clock has at least two
  characters.
\<close>

theorem send_byte_counts:
  "dials (trace (ftpSend e inst msg w))
     = [fst (ftpDial (ftp e) w (serverAddress inst) (dialTimeout (config inst)))]
   \<and> (outcome (ftpSend e inst msg w) = NoReturn Exited)
       = (dials (trace (ftpSend e inst msg w)) = [None] \<and> authMethod (config inst) \<noteq> PASSWORD)
   \<and> (\<exists>u k r. EvLogin u k r \<in> set (trace (ftpSend e inst msg w)))
       = (dials (trace (ftpSend e inst msg w)) = [None] \<and> authMethod (config inst) = PASSWORD)
   \<and> (outcome (ftpSend e inst msg w) = NoReturn Panicked)
       = ((\<exists>u k. EvLogin u k None \<in> set (trace (ftpSend e inst msg w)))
          \<and> length (Itoa (Year (Now e (afterLogin e inst w)))) < 2)
   \<and> ((\<forall>w'. 2 \<le> length (Itoa (Year (Now e w'))))
        \<longrightarrow> outcome (ftpSend e inst msg w) \<noteq> NoReturn Panicked)
   \<and> (\<exists>err. outcome (ftpSend e inst msg w) = Return (- 1) err)
       = (outcome (ftpSend e inst msg w) \<noteq> NoReturn Exited
          \<and> outcome (ftpSend e inst msg w) \<noteq> NoReturn Panicked)
   \<and> (\<exists>p d. EvStor p d None \<in> set (trace (ftpSend e inst msg w)))
       = (outcome (ftpSend e inst msg w) = Return (- 1) None)
   \<and> (outcome (sftpSend e inst msg w) = Return n None)
       = (EvWrite (addLineEndings inst msg (linebreak (config inst))) n None
            \<in> set (trace (sftpSend e inst msg w)))
   \<and> ((\<forall>w'. 2 \<le> length (Itoa (Year (Now e w'))))
        \<longrightarrow> (\<exists>m err. outcome (sftpSend e inst msg w) = Return m err))"
  unfolding trace_def outcome_def
  using ftpSend_dials [of e inst msg w] ftpSend_exits [of e inst msg w]
    ftpSend_login [of e inst msg w]
    ftpSend_panics [of e inst msg w] ftpSend_clock [of e inst msg w]
    ftpSend_returns [of e inst msg w] ftpSend_stored [of e inst msg w]
    sftpSend_written [of e inst msg w n] sftpSend_returns [of e inst msg w]
  by simp

text \<open>
  The amended C10 at the example sends: with the method \<open>PASSWORD\<close> and the example
  clock \<open>ftpSend\<close> returns, and as \<open>Stor\<close> succeeds it returns \<open>(-1, nil)\<close>; \<open>sftpSend\<close>
  returns the four bytes that \<open>Write\<close> reported.
\<close>

theorem send_byte_counts_witness:
  "(\<forall>w'. 2 \<le> length (Itoa (Year (Now (exampleEnv None None None) w'))))
   \<and> authMethod (config (exampleInstance FTP)) = PASSWORD
   \<and> (\<exists>err. outcome (ftpSend (exampleEnv None None None) (exampleInstance FTP) [exampleData] 0)
       = Return (- 1) err)
   \<and> outcome (ftpSend (exampleEnv None None None) (exampleInstance FTP) [exampleData] 0)
       = Return (- 1) None
   \<and> outcome (sftpSend (exampleEnv None None None) (exampleInstance SFTP) [exampleData] 0)
       = Return 4 None"
proof -
  have clock: "\<forall>w'. 2 \<le> length (Itoa (Year (Now (exampleEnv None None None) w')))"
    by (simp add: exampleEnv_def exampleTime_def Itoa_def digits.simps)
  have auth: "authMethod (config (exampleInstance FTP)) = PASSWORD"
    by (simp add: exampleInstance_def exampleConfig_def)
  have stor: "\<exists>p d. EvStor p d None
      \<in> set (trace (ftpSend (exampleEnv None None None) (exampleInstance FTP) [exampleData] 0))"
    by (simp add: trace_def example_ftpSend)
  have data: "addLineEndings (exampleInstance SFTP) [exampleData]
      (linebreak (config (exampleInstance SFTP))) = [0x48, 0x7C, 0x0A, 0x0A]"
    by (simp add: addLineEndings_def exampleInstance_def exampleConfig_def exampleData_def
        LINEBREAK_LF_def LINEBREAK_CR_def LINEBREAK_CRLF_def)
  have wr: "EvWrite (addLineEndings (exampleInstance SFTP) [exampleData]
        (linebreak (config (exampleInstance SFTP)))) 4 None
      \<in> set (trace (sftpSend (exampleEnv None None None) (exampleInstance SFTP) [exampleData] 0))"
    by (simp add: data trace_def example_sftpSend)
  from send_byte_counts [of "exampleEnv None None None" "exampleInstance FTP" "[exampleData]" 0]
    clock auth
  have r: "\<exists>err. outcome (ftpSend (exampleEnv None None None) (exampleInstance FTP) [exampleData] 0)
       = Return (- 1) err"
    by blast
  from send_byte_counts [of "exampleEnv None None None" "exampleInstance FTP" "[exampleData]" 0]
    stor
  have f: "outcome (ftpSend (exampleEnv None None None) (exampleInstance FTP) [exampleData] 0)
       = Return (- 1) None"
    by blast
  from send_byte_counts [of "exampleEnv None None None" "exampleInstance SFTP" "[exampleData]" 0 4]
    wr
  have s: "outcome (sftpSend (exampleEnv None None None) (exampleInstance SFTP) [exampleData] 0)
       = Return 4 None"
    by blast
  from clock auth r f s show ?thesis by simp
qed

subsection \<open>The checksum\<close>

lemma hexValue_hexDigit: "n < 16 \<Longrightarrow> hexValue (hexDigit n) = Some n"
proof -
  assume "n < 16"
  then have "n \<in> set [0..<16]" by simp
  then show ?thesis
    by (simp add: upt_rec hexValue_def hexDigit_def) (elim disjE; simp)
qed

lemma computeChecksum_example: "computeChecksum (bytes ''1'') (bytes ''This is transmission text for which we need a checksum'') [ETX] = bytes ''3D''"
  by (simp add: computeChecksum_def bytes_def byteSum_def ETX_def hexDigit_def)

lemma computeChecksum_hex:
  "\<exists>hi lo. computeChecksum f b t = [hi, lo]
      \<and> hexValue hi = Some (byteSum (f @ b @ t) mod 256 div 16)
      \<and> hexValue lo = Some (byteSum (f @ b @ t) mod 256 mod 16)"
proof -
  have "byteSum (f @ b @ t) mod 256 div 16 < 16" by simp
  then show ?thesis
    by (simp add: computeChecksum_def Let_def hexValue_hexDigit)
qed

text \<open>
  C1. For all byte strings, \<open>computeChecksum\<close> returns exactly two bytes, which are
  upper-case hexadecimal ASCII digits: the high and the low digit of the sum of all bytes
  modulo 256. For the frame number \<open>1\<close>, the body of the test and \<open>ETX\<close> the sum is 61
  and the checksum is \<open>3D\<close>.
\<close>

theorem computeChecksum_two_upper_hex_digits:
  "(\<exists>hi lo. computeChecksum f b t = [hi, lo]
      \<and> hexValue hi = Some (byteSum (f @ b @ t) mod 256 div 16)
      \<and> hexValue lo = Some (byteSum (f @ b @ t) mod 256 mod 16))
   \<and> computeChecksum (bytes ''1'')
       (bytes ''This is transmission text for which we need a checksum'') [ETX] = bytes ''3D''
   \<and> byteSum (bytes ''1'' @ bytes ''This is transmission text for which we need a checksum''
        @ [ETX]) mod 256 = 61"
proof -
  have "byteSum (bytes ''1'' @ bytes ''This is transmission text for which we need a checksum''
        @ [ETX]) mod 256 = 61"
    by (simp add: bytes_def byteSum_def ETX_def)
  with computeChecksum_hex [of f b t] computeChecksum_example show ?thesis
    by blast
qed

subsection \<open>File names and the remote address\<close>

lemma Itoa_2023: "Itoa 2023 = ''2023''"
  by (simp add: Itoa_def digits.simps)

lemma generateFileName_example_no_suffix:
  "generateFileName exampleTime ''yyyyMMddhhmmss-#.dat'' ''AUTO-'' [] 7
     = Some ''AUTO-20231014162427-7.dat''"
  by (simp add: generateFileName_def Let_def exampleTime_def Itoa_def digits.simps
      Sprintf_0d_def padZero_def)

lemma generateFileName_with_suffix:
  "suf \<noteq> [] \<Longrightarrow> 2 \<le> length (Itoa (Year now)) \<Longrightarrow>
   generateFileName now filename pre suf cnt = Some (pre @ ''.'' @ TrimLeft ''.'' suf)"
  by (simp add: generateFileName_def Let_def)

text \<open>
  C4. With a configured (non-empty) suffix the code does not append the suffix to the
  substituted pattern: it overwrites the generated name. For the default pattern and
  prefix, the suffix \<open>''_x''\<close> and counter 7 the result is \<open>''AUTO-..''\<close>, which holds
  neither the substituted pattern nor the suffix.
\<close>

theorem generateFileName_suffix_overwrites:
  "generateFileName exampleTime ''yyyyMMddhhmmss-#.dat'' ''AUTO-'' ''_x'' 7 = Some ''AUTO-..''"
  by (simp add: generateFileName_def Let_def exampleTime_def Itoa_2023 TrimLeft_def)

text \<open>
  C8. \<open>RemoteAddress\<close> returns the configured host and a nil error, whatever the state of
  the instance.
\<close>

theorem RemoteAddress_host_nil:
  "RemoteAddress instance = (host instance, None)"
  by (simp add: RemoteAddress_def)

end
